theory Spec2Isabelle
  imports Complex_Main
begin

section \<open>JavaScript values and strings\<close>

text \<open>
  Strings are \<^typ>\<open>string\<close>; a character is one code unit. The functions modelled here
  only ever single out ASCII characters (\<open>&\<close>, \<open><\<close>, \<open>>\<close>, the double quote, the
  backslash, white space, the dot, word characters), every other character is copied.

  \<open>Record<string, unknown>\<close> values (block attributes, block style objects) are
  \<^emph>\<open>json\<close> values; an object is the list of its own properties in insertion order
  (no property name used by the generator is integer-like, so insertion order is the
  enumeration order of \<open>Object.entries\<close> and \<open>JSON.stringify\<close>). Numbers that
  reach the markup are integers here (heading level, pixel dimensions, dim ratio): a
  JavaScript number that is no integer, or an integer of 22 digits or more (printed in
  exponent form by the source), is outside the model. \<open>JFunction\<close> is a built-in
  function, by name: the value found when a lookup table is read at the name of a
  member that every object inherits.
\<close>

datatype json =
    JUndefined
  | JNull
  | JBool bool
  | JNumber int
  | JString string
  | JArray "json list"
  | JObject "(string \<times> json) list"
  | JFunction string

type_synonym jobject = "(string \<times> json) list"

definition join :: "string \<Rightarrow> string list \<Rightarrow> string" where
  "join sep parts = (case parts of [] \<Rightarrow> [] | p # ps \<Rightarrow> p @ concat (map (\<lambda>q. sep @ q) ps))"

definition digit_char :: "nat \<Rightarrow> char" where
  "digit_char d = ''0123456789'' ! d"

fun nat_to_string :: "nat \<Rightarrow> string" where
  "nat_to_string n =
     (if n < 10 then [digit_char n] else nat_to_string (n div 10) @ [digit_char (n mod 10)])"

declare nat_to_string.simps [simp del]

definition int_to_string :: "int \<Rightarrow> string" where
  "int_to_string i = (if i < 0 then ''-'' @ nat_to_string (nat (- i)) else nat_to_string (nat i))"

text \<open>Truthiness (\<open>if (v)\<close>, \<open>v || d\<close>) of a value and of an optional string.\<close>

fun truthy :: "json \<Rightarrow> bool" where
  "truthy JUndefined = False"
| "truthy JNull = False"
| "truthy (JBool b) = b"
| "truthy (JNumber n) = (n \<noteq> 0)"
| "truthy (JString s) = (s \<noteq> [])"
| "truthy (JArray xs) = True"
| "truthy (JObject kvs) = True"
| "truthy (JFunction n) = True"

fun truthy_str :: "string option \<Rightarrow> bool" where
  "truthy_str None = False"
| "truthy_str (Some s) = (s \<noteq> [])"

text \<open>\<open>v || d\<close> on an optional string.\<close>

fun or_str :: "string option \<Rightarrow> string \<Rightarrow> string" where
  "or_str None d = d"
| "or_str (Some s) d = (if s = [] then d else s)"

text \<open>
  Conversion to string inside a template literal. A built-in function prints as the
  engine of Node.js prints it.
\<close>

fun js_string :: "json \<Rightarrow> string" where
  "js_string JUndefined = ''undefined''"
| "js_string JNull = ''null''"
| "js_string (JBool b) = (if b then ''true'' else ''false'')"
| "js_string (JNumber n) = int_to_string n"
| "js_string (JString s) = s"
| "js_string (JArray xs) =
     join '','' (map (\<lambda>x. if x = JUndefined \<or> x = JNull then [] else js_string x) xs)"
| "js_string (JObject kvs) = ''[object Object]''"
| "js_string (JFunction n) = ''function '' @ n @ ''() { [native code] }''"

text \<open>
  Property read \<open>v.k\<close> / \<open>v?.k\<close>: own properties of an object; a primitive, an array
  or an absent value has none of the names read by the generator.
\<close>

definition obj_get :: "jobject \<Rightarrow> string \<Rightarrow> json" where
  "obj_get kvs k = (case map_of kvs k of None \<Rightarrow> JUndefined | Some v \<Rightarrow> v)"

fun jget :: "json \<Rightarrow> string \<Rightarrow> json" where
  "jget (JObject kvs) k = obj_get kvs k"
| "jget _ k = JUndefined"

text \<open>Assignment \<open>obj.k = v\<close>: an existing property keeps its place, a new one is appended.\<close>

fun obj_set :: "jobject \<Rightarrow> string \<Rightarrow> json \<Rightarrow> jobject" where
  "obj_set [] k v = [(k, v)]"
| "obj_set ((k', v') # rest) k v =
     (if k' = k then (k, v) # rest else (k', v') # obj_set rest k v)"

text \<open>Object spread \<open>{ ...(o as object), k: v }\<close>, where \<open>o\<close> may be undefined.\<close>

definition spread_with :: "json \<Rightarrow> string \<Rightarrow> json \<Rightarrow> json" where
  "spread_with base k v =
     JObject (obj_set (case base of JObject kvs \<Rightarrow> kvs | _ \<Rightarrow> []) k v)"

subsection \<open>JSON.stringify\<close>

definition hex_char :: "nat \<Rightarrow> char" where
  "hex_char d = ''0123456789abcdef'' ! d"

definition json_escape_char :: "char \<Rightarrow> string" where
  \<open>json_escape_char c =
     (if c = CHR ''"'' then [CHR 0x5C, CHR ''"'']
      else if c = CHR 0x5C then [CHR 0x5C, CHR 0x5C]
      else if c = CHR 0x08 then [CHR 0x5C, CHR ''b'']
      else if c = CHR 0x0C then [CHR 0x5C, CHR ''f'']
      else if c = CHR 0x0A then [CHR 0x5C, CHR ''n'']
      else if c = CHR 0x0D then [CHR 0x5C, CHR ''r'']
      else if c = CHR 0x09 then [CHR 0x5C, CHR ''t'']
      else if (of_char c :: nat) < 0x20
        then [CHR 0x5C, CHR ''u'', CHR ''0'', CHR ''0'',
              hex_char (of_char c div 16), hex_char (of_char c mod 16)]
      else [c])\<close>

definition json_quote :: "string \<Rightarrow> string" where
  \<open>json_quote s = [CHR ''"''] @ concat (map json_escape_char s) @ [CHR ''"'']\<close>

text \<open>
  \<open>JSON.stringify\<close> leaves out the properties whose value is undefined or a function
  and writes \<open>null\<close> for such an array element.
\<close>

fun is_function :: "json \<Rightarrow> bool" where
  "is_function (JFunction n) = True"
| "is_function _ = False"

fun stringify :: "json \<Rightarrow> string"
  and stringify_props :: "jobject \<Rightarrow> string list"
  and stringify_elems :: "json list \<Rightarrow> string list"
where
  "stringify JUndefined = ''undefined''"
| "stringify JNull = ''null''"
| "stringify (JBool b) = (if b then ''true'' else ''false'')"
| "stringify (JNumber n) = int_to_string n"
| "stringify (JString s) = json_quote s"
| "stringify (JArray xs) = ''['' @ join '','' (stringify_elems xs) @ '']''"
| "stringify (JObject kvs) = ''{'' @ join '','' (stringify_props kvs) @ ''}''"
| "stringify (JFunction n) = ''undefined''"
| "stringify_props [] = []"
| "stringify_props ((k, v) # rest) =
     (if v = JUndefined \<or> is_function v then stringify_props rest
      else (json_quote k @ '':'' @ stringify v) # stringify_props rest)"
| "stringify_elems [] = []"
| "stringify_elems (x # xs) =
     (if x = JUndefined \<or> is_function x then ''null'' else stringify x) # stringify_elems xs"

section \<open>lib/utils.ts\<close>

text \<open>\<open>str.replace(/c/g, r)\<close> for a one-character pattern.\<close>

definition replaceAll :: "char \<Rightarrow> string \<Rightarrow> string \<Rightarrow> string" where
  "replaceAll c r s = concat (map (\<lambda>x. if x = c then r else [x]) s)"

definition escapeHtml :: "string \<Rightarrow> string" where
  \<open>escapeHtml str =
     replaceAll (CHR ''>'') ''&gt;''
       (replaceAll (CHR ''<'') ''&lt;''
         (replaceAll (CHR ''&'') ''&amp;'' str))\<close>

definition escapeAttr :: "string \<Rightarrow> string" where
  \<open>escapeAttr str =
     replaceAll (CHR ''>'') ''&gt;''
       (replaceAll (CHR ''<'') ''&lt;''
         (replaceAll (CHR ''"'') ''&quot;''
           (replaceAll (CHR ''&'') ''&amp;'' str)))\<close>

text \<open>
  \<open>arr.slice(s, e)\<close>: a negative bound counts from the end, and both bounds are
  clamped to the array.
\<close>

definition slice :: "'a list \<Rightarrow> int \<Rightarrow> int \<Rightarrow> 'a list" where
  "slice arr s e =
     (let n = int (length arr);
          k = (if s < 0 then max (n + s) 0 else min s n);
          f = (if e < 0 then max (n + e) 0 else min e n)
      in take (nat (f - k)) (drop (nat k) arr))"

text \<open>
  \<open>chunkArray\<close>. The bucket count is any number: the loop
  \<open>for (let i = 0; i < buckets; i++)\<close> runs for the natural numbers below
  \<open>buckets\<close>, that is \<open>\<lceil>buckets\<rceil>\<close> times for a positive count and not at all
  otherwise. The quotient \<open>arr.length / buckets\<close> is a floating-point one in the
  source and exact here; the two have the same ceiling when the count is an integer
  and whenever the exact quotient is an integer that the division returns (as for 5
  and 2.5). A count that is no real number (\<open>NaN\<close>, which \<open>|| 2\<close> replaces at the only
  call, or an infinity) is outside the model.
\<close>

definition chunkArray :: "'a list \<Rightarrow> real \<Rightarrow> 'a list list" where
  "chunkArray arr buckets =
     (let chunkSize = \<lceil>real (length arr) / buckets\<rceil>
      in filter (\<lambda>chunk. length chunk > 0)
           (map (\<lambda>i. slice arr (int i * chunkSize) ((int i + 1) * chunkSize))
              [0..<nat \<lceil>buckets\<rceil>]))"

text \<open>
  The lookup tables (font sizes, padding, gap) are object literals with string entries.
  \<open>table[k]\<close> finds the entry of an own key; at one of the twelve names below it finds
  the member that every object inherits from \<open>Object.prototype\<close>: a built-in function
  (\<open>Object\<close> itself under \<open>constructor\<close>), or, under \<open>__proto__\<close>, the prototype
  object, which has no enumerable property of its own; at any other name it finds
  nothing.
\<close>

definition Object_prototype_names :: "string list" where
  "Object_prototype_names =
     [''constructor'', ''__proto__'', ''hasOwnProperty'', ''isPrototypeOf'',
      ''propertyIsEnumerable'', ''toLocaleString'', ''toString'', ''valueOf'',
      ''__defineGetter__'', ''__defineSetter__'', ''__lookupGetter__'', ''__lookupSetter__'']"

definition inherited_member :: "string \<Rightarrow> json" where
  "inherited_member k =
     (if k = ''__proto__'' then JObject []
      else if k = ''constructor'' then JFunction ''Object''
      else JFunction k)"

definition table_get :: "(string \<times> string) list \<Rightarrow> string \<Rightarrow> json" where
  "table_get table k =
     (case map_of table k of
        Some v \<Rightarrow> JString v
      | None \<Rightarrow> if k \<in> set Object_prototype_names then inherited_member k else JUndefined)"

definition mapFontSize :: "string option \<Rightarrow> json" where
  "mapFontSize sz =
     (if \<not> truthy_str sz then JUndefined
      else table_get [(''sm'', ''small''), (''md'', ''medium''), (''lg'', ''large''),
                      (''xl'', ''x-large'')] (or_str sz []))"

section \<open>types/ir.ts\<close>

text \<open>
  The discriminating \<open>type\<close> fields are closed unions and become datatypes; the
  token-valued attributes (padding, gap, font size, alignment, variant) are the strings
  the renderer looks up or interpolates. Optional fields are options.
\<close>

datatype LayoutType = FullWidth | Constrained | Grid | Columns

record LayoutDescriptor =
  ltype :: LayoutType
  columns :: "real option"
  gap :: "string option"
  contentWidth :: "string option"
  verticalAlign :: "string option"

datatype NodeType =
  NHeading | NParagraph | NImage | NButton | NList | NSpacer | NGroup | NNavigation

record NodeAttributes =
  level :: "nat option"
  src :: "string option"
  alt :: "string option"
  width :: "int option"
  height :: "int option"
  href :: "string option"
  variant :: "string option"
  ordered :: "bool option"
  items :: "string list option"
  links :: "(string \<times> string) list option"
  fontSize :: "string option"
  textAlign :: "string option"
  backgroundColor :: "string option"
  textColor :: "string option"
  padding :: "string option"

datatype IRNode =
  IRNode (ntype: NodeType) (content: "string option") (attributes: NodeAttributes)
    (children: "IRNode list option") (motionIntent: "string option")
    (style: "(string \<times> string) list option") (className: "string option")

datatype BackgroundType = BgColor | BgImage | BgGradient

record Background =
  bg_type :: BackgroundType
  bg_value :: string

record IRSection =
  sectionIntent :: string
  layout :: LayoutDescriptor
  children :: "IRNode list"
  motionIntent :: "string option"
  background :: "Background option"
  style :: "(string \<times> string) list option"
  className :: "string option"

record Colors =
  primary :: string
  secondary :: string
  background :: string
  foreground :: string
  accent :: "string option"
  muted :: "string option"

record Fonts =
  heading :: "string option"
  body :: "string option"

record DesignTokens =
  colors :: Colors
  fonts :: Fonts
  borderRadius :: "string option"

record Metadata =
  title :: string
  description :: "string option"
  sourceUrl :: "string option"

record IRDocument =
  version :: string
  metadata :: Metadata
  designTokens :: DesignTokens
  header :: "IRSection option"
  sections :: "IRSection list"
  footer :: "IRSection option"
  customCSS :: "string option"

section \<open>generator/block-renderer.ts\<close>

definition PADDING_MAP :: "(string \<times> string) list" where
  "PADDING_MAP = [(''sm'', ''10px''), (''md'', ''20px''), (''lg'', ''40px''), (''xl'', ''60px'')]"

definition GAP_MAP :: "(string \<times> string) list" where
  "GAP_MAP = [(''sm'', ''10px''), (''md'', ''20px''), (''lg'', ''40px'')]"

text \<open>
  \<open>cleanObj\<close>: drop undefined, null and empty-string properties, clean nested
  objects (not arrays) and drop those that become empty.
\<close>

fun cleanObj :: "jobject \<Rightarrow> jobject" where
  "cleanObj [] = []"
| "cleanObj ((key, v) # rest) =
     (case v of
        JUndefined \<Rightarrow> cleanObj rest
      | JNull \<Rightarrow> cleanObj rest
      | JString s \<Rightarrow> (if s = [] then cleanObj rest else (key, v) # cleanObj rest)
      | JObject kvs \<Rightarrow>
          (let nested = cleanObj kvs
           in if length nested > 0 then (key, JObject nested) # cleanObj rest
              else cleanObj rest)
      | _ \<Rightarrow> (key, v) # cleanObj rest)"

definition block :: "string \<Rightarrow> jobject \<Rightarrow> string \<Rightarrow> string" where
  "block name attrs inner =
     (let cleaned = cleanObj attrs;
          json = (if length cleaned > 0 then '' '' @ stringify (JObject cleaned) else [])
      in ''<!-- wp:'' @ name @ json @ '' -->\<newline>'' @ inner @ ''\<newline><!-- /wp:'' @ name @ '' -->'')"

definition selfClosingBlock :: "string \<Rightarrow> jobject \<Rightarrow> string" where
  "selfClosingBlock name attrs =
     (let cleaned = cleanObj attrs;
          json = (if length cleaned > 0 then '' '' @ stringify (JObject cleaned) else [])
      in ''<!-- wp:'' @ name @ json @ '' /-->'')"

text \<open>\<open>if (v) styles.push(`name:${v}`)\<close>.\<close>

definition push_prop :: "string \<Rightarrow> json \<Rightarrow> string list" where
  "push_prop name v = (if truthy v then [name @ '':'' @ js_string v] else [])"

text \<open>\<open>typeof v === "object" && v !== null\<close>.\<close>

fun is_object :: "json \<Rightarrow> bool" where
  "is_object (JObject kvs) = True"
| "is_object (JArray xs) = True"
| "is_object _ = False"

fun is_string :: "json \<Rightarrow> bool" where
  "is_string (JString s) = True"
| "is_string _ = False"

text \<open>
  \<open>wpInlineStyle\<close> is applied to \<open>blockAttrs.style\<close>, which is undefined when no
  style was set. The pushes happen in the order of the source text.
\<close>

definition wpInlineStyle :: "json \<Rightarrow> string" where
  \<open>wpInlineStyle blockStyle =
     (if \<not> truthy blockStyle then []
      else
        let typo = jget blockStyle ''typography'';
            color = jget blockStyle ''color'';
            spacing = jget blockStyle ''spacing'';
            p = jget spacing ''padding'';
            m = jget spacing ''margin'';
            bg = jget spacing ''blockGap'';
            border = jget blockStyle ''border'';
            styles =
              push_prop ''font-size'' (jget typo ''fontSize'')
              @ push_prop ''line-height'' (jget typo ''lineHeight'')
              @ push_prop ''letter-spacing'' (jget typo ''letterSpacing'')
              @ push_prop ''text-transform'' (jget typo ''textTransform'')
              @ push_prop ''color'' (jget color ''text'')
              @ push_prop ''background-color'' (jget color ''background'')
              @ push_prop ''background'' (jget color ''gradient'')
              @ (if truthy p \<and> is_object p then
                   push_prop ''padding-top'' (jget p ''top'')
                   @ push_prop ''padding-right'' (jget p ''right'')
                   @ push_prop ''padding-bottom'' (jget p ''bottom'')
                   @ push_prop ''padding-left'' (jget p ''left'')
                 else [])
              @ (if truthy m \<and> is_object m then
                   push_prop ''margin-top'' (jget m ''top'')
                   @ push_prop ''margin-right'' (jget m ''right'')
                   @ push_prop ''margin-bottom'' (jget m ''bottom'')
                   @ push_prop ''margin-left'' (jget m ''left'')
                 else [])
              @ (if truthy bg then
                   (if is_string bg then [''gap:'' @ js_string bg]
                    else if is_object bg then
                      (if truthy (jget bg ''top'') \<and> truthy (jget bg ''left'')
                         then [''gap:'' @ js_string (jget bg ''top'') @ '' ''
                                 @ js_string (jget bg ''left'')]
                       else if truthy (jget bg ''top'')
                         then [''gap:'' @ js_string (jget bg ''top'')]
                       else if truthy (jget bg ''left'')
                         then [''gap:'' @ js_string (jget bg ''left'')]
                       else [])
                    else [])
                 else [])
              @ push_prop ''border-radius'' (jget border ''radius'')
        in if length styles = 0 then []
           else '' style="'' @ join '';'' styles @ ''"'')\<close>

text \<open>\<open>str.split(" ")\<close>: the pieces between single spaces, empty pieces included.\<close>

fun split_char :: "char \<Rightarrow> string \<Rightarrow> string list" where
  "split_char sep [] = [[]]"
| "split_char sep (c # cs) =
     (if c = sep then [] # split_char sep cs
      else (case split_char sep cs of
              w # ws \<Rightarrow> (c # w) # ws
            | [] \<Rightarrow> [[c]]))"

text \<open>
  \<open>applyClassName\<close> mutates the attribute object and the class list it is given;
  the model returns both.
\<close>

definition applyClassName ::
  "string option \<Rightarrow> jobject \<Rightarrow> string list \<Rightarrow> jobject \<times> string list" where
  "applyClassName cn blockAttrs cssClasses =
     (if \<not> truthy_str cn then (blockAttrs, cssClasses)
      else (obj_set blockAttrs ''className'' (JString (or_str cn [])),
            cssClasses @ filter (\<lambda>w. w \<noteq> []) (split_char (CHR '' '') (or_str cn []))))"

definition layoutClassFromType :: "string option \<Rightarrow> string option" where
  "layoutClassFromType t =
     (if t = Some ''constrained'' then Some ''is-layout-constrained''
      else if t = Some ''grid'' then Some ''is-layout-grid''
      else if t = Some ''flex'' then Some ''is-layout-flex''
      else if t = Some ''default'' then Some ''is-layout-flow''
      else None)"

text \<open>\<open>irStyle[k]\<close> on the optional free-form style record.\<close>

definition style_get :: "(string \<times> string) list option \<Rightarrow> string \<Rightarrow> string option" where
  "style_get irStyle k = (case irStyle of None \<Rightarrow> None | Some kvs \<Rightarrow> map_of kvs k)"

definition buildBlockStyle ::
  "NodeAttributes \<Rightarrow> (string \<times> string) list option \<Rightarrow> jobject \<times> string list" where
  "buildBlockStyle attrs irStyle =
     (let (bs1, cl1) =
            (if truthy_str (textColor attrs)
             then (obj_set [] ''color''
                     (spread_with (obj_get [] ''color'') ''text'' (JString (or_str (textColor attrs) []))),
                   [''has-text-color''])
             else ([], []));
          (bs2, cl2) =
            (if truthy_str (backgroundColor attrs)
             then (obj_set bs1 ''color''
                     (spread_with (obj_get bs1 ''color'') ''background''
                        (JString (or_str (backgroundColor attrs) []))),
                   cl1 @ [''has-background''])
             else (bs1, cl1));
          bs3 =
            (if truthy_str (padding attrs)
             then (let val = table_get PADDING_MAP (or_str (padding attrs) [])
                   in if truthy val then
                        obj_set bs2 ''spacing''
                          (JObject [(''padding'',
                             JObject [(''top'', val), (''right'', val),
                                      (''bottom'', val), (''left'', val)])])
                      else bs2)
             else bs2)
      in if irStyle = None then (bs3, cl2)
         else
           let typo_set = (\<lambda>bs css wp.
                 if truthy_str (style_get irStyle css)
                 then obj_set bs ''typography''
                        (spread_with (obj_get bs ''typography'') wp
                           (JString (or_str (style_get irStyle css) [])))
                 else bs);
               bs4 = typo_set bs3 ''font-size'' ''fontSize'';
               bs5 = typo_set bs4 ''line-height'' ''lineHeight'';
               bs6 = typo_set bs5 ''letter-spacing'' ''letterSpacing'';
               bs7 = typo_set bs6 ''text-transform'' ''textTransform'';
               (bs8, cl8) =
                 (if truthy_str (style_get irStyle ''background-color'')
                     \<and> \<not> truthy_str (backgroundColor attrs)
                  then (obj_set bs7 ''color''
                          (spread_with (obj_get bs7 ''color'') ''background''
                             (JString (or_str (style_get irStyle ''background-color'') []))),
                        cl2 @ [''has-background''])
                  else (bs7, cl2));
               (bs9, cl9) =
                 (if truthy_str (style_get irStyle ''color'') \<and> \<not> truthy_str (textColor attrs)
                  then (obj_set bs8 ''color''
                          (spread_with (obj_get bs8 ''color'') ''text''
                             (JString (or_str (style_get irStyle ''color'') []))),
                        cl8 @ [''has-text-color''])
                  else (bs8, cl8))
           in (bs9, cl9))"

text \<open>\<open>if (Object.keys(blockStyle).length > 0) blockAttrs.style = blockStyle\<close>.\<close>

definition set_style :: "jobject \<Rightarrow> jobject \<Rightarrow> jobject" where
  "set_style blockAttrs blockStyle =
     (if length blockStyle > 0 then obj_set blockAttrs ''style'' (JObject blockStyle)
      else blockAttrs)"

definition renderHeading :: "IRNode \<Rightarrow> DesignTokens \<Rightarrow> string" where
  \<open>renderHeading node tokens =
     (let attrs = attributes node;
          content = or_str (content node) [];
          level = (case level attrs of None \<Rightarrow> 2 | Some l \<Rightarrow> if l = 0 then 2 else l);
          tag = ''h'' @ nat_to_string level;
          blockAttrs0 = [(''level'', JNumber (int level))];
          cssClasses0 = [''wp-block-heading''];
          (blockAttrs1, cssClasses1) =
            (if truthy_str (textAlign attrs)
             then (obj_set blockAttrs0 ''textAlign'' (JString (or_str (textAlign attrs) [])),
                   cssClasses0 @ [''has-text-align-'' @ or_str (textAlign attrs) []])
             else (blockAttrs0, cssClasses0));
          (blockAttrs2, cssClasses2) =
            (let fontSize = mapFontSize (fontSize attrs)
             in if truthy fontSize
                then (obj_set blockAttrs1 ''fontSize'' fontSize,
                      cssClasses1 @ [''has-'' @ js_string fontSize @ ''-font-size''])
                else (blockAttrs1, cssClasses1));
          (blockAttrs3, cssClasses3) =
            (if truthy_str (heading (fonts tokens))
             then (obj_set blockAttrs2 ''fontFamily'' (JString ''heading''),
                   cssClasses2 @ [''has-heading-font-family''])
             else (blockAttrs2, cssClasses2));
          (blockStyle, classes) = buildBlockStyle attrs (IRNode.style node);
          blockAttrs4 = set_style blockAttrs3 blockStyle;
          cssClasses4 = cssClasses3 @ classes;
          (blockAttrs, cssClasses) = applyClassName (IRNode.className node) blockAttrs4 cssClasses4;
          classAttr = (if length cssClasses > 0 then '' class="'' @ join '' '' cssClasses @ ''"''
                       else []);
          styleAttr = wpInlineStyle (obj_get blockAttrs ''style'')
      in block ''heading'' blockAttrs
           (''<'' @ tag @ classAttr @ styleAttr @ ''>'' @ escapeHtml content @ ''</'' @ tag @ ''>''))\<close>

definition renderParagraph :: "IRNode \<Rightarrow> DesignTokens \<Rightarrow> string" where
  \<open>renderParagraph node tokens =
     (let attrs = attributes node;
          content = or_str (content node) [];
          (blockAttrs1, cssClasses1) =
            (if truthy_str (textAlign attrs)
             then (obj_set [] ''align'' (JString (or_str (textAlign attrs) [])),
                   [''has-text-align-'' @ or_str (textAlign attrs) []])
             else ([], []));
          (blockAttrs2, cssClasses2) =
            (let fontSize = mapFontSize (fontSize attrs)
             in if truthy fontSize
                then (obj_set blockAttrs1 ''fontSize'' fontSize,
                      cssClasses1 @ [''has-'' @ js_string fontSize @ ''-font-size''])
                else (blockAttrs1, cssClasses1));
          (blockAttrs3, cssClasses3) =
            (if truthy_str (body (fonts tokens))
             then (obj_set blockAttrs2 ''fontFamily'' (JString ''body''),
                   cssClasses2 @ [''has-body-font-family''])
             else (blockAttrs2, cssClasses2));
          (blockStyle, classes) = buildBlockStyle attrs (IRNode.style node);
          blockAttrs4 = set_style blockAttrs3 blockStyle;
          cssClasses4 = cssClasses3 @ classes;
          (blockAttrs, cssClasses) = applyClassName (IRNode.className node) blockAttrs4 cssClasses4;
          classAttr = (if length cssClasses > 0 then '' class="'' @ join '' '' cssClasses @ ''"''
                       else []);
          styleAttr = wpInlineStyle (obj_get blockAttrs ''style'')
      in block ''paragraph'' blockAttrs
           (''<p'' @ classAttr @ styleAttr @ ''>'' @ escapeHtml content @ ''</p>''))\<close>

text \<open>
  \<open>if (attributes.width)\<close>: a number is truthy unless it is zero. Width and height
  are integers here and printed in full.
\<close>

fun truthy_num :: "int option \<Rightarrow> bool" where
  "truthy_num None = False"
| "truthy_num (Some n) = (n \<noteq> 0)"

definition renderImage :: "IRNode \<Rightarrow> string" where
  \<open>renderImage node =
     (let attrs = attributes node;
          src = or_str (src attrs) [];
          alt = or_str (alt attrs) [];
          blockAttrs0 = [(''sizeSlug'', JString ''full''), (''linkDestination'', JString ''none'')];
          cssClasses0 = [''wp-block-image'', ''size-full''];
          blockAttrs1 = (if truthy_num (width attrs)
                         then obj_set blockAttrs0 ''width'' (JNumber (the (width attrs)))
                         else blockAttrs0);
          blockAttrs2 = (if truthy_num (height attrs)
                         then obj_set blockAttrs1 ''height'' (JNumber (the (height attrs)))
                         else blockAttrs1);
          (blockAttrs, cssClasses) = applyClassName (IRNode.className node) blockAttrs2 cssClasses0;
          imgAttrs =
            [''src="'' @ escapeAttr src @ ''"'', ''alt="'' @ escapeAttr alt @ ''"'']
            @ (if truthy_num (width attrs)
               then [''width="'' @ int_to_string (the (width attrs)) @ ''"''] else [])
            @ (if truthy_num (height attrs)
               then [''height="'' @ int_to_string (the (height attrs)) @ ''"''] else [])
      in block ''image'' blockAttrs
           (''<figure class="'' @ join '' '' cssClasses @ ''"><img '' @ join '' '' imgAttrs
              @ ''/></figure>''))\<close>

definition renderButton :: "IRNode \<Rightarrow> DesignTokens \<Rightarrow> string" where
  \<open>renderButton node tokens =
     (let attrs = attributes node;
          content = or_str (content node) [];
          href = or_str (href attrs) ''#'';
          variant = or_str (variant attrs) ''primary'';
          btnClasses0 = [''wp-block-button__link'', ''wp-element-button''];
          (btnAttrs1, btnClasses1) =
            (if variant = ''primary'' then
               (obj_set (obj_set [] ''backgroundColor'' (JString ''primary''))
                  ''textColor'' (JString ''background''),
                btnClasses0 @ [''has-primary-background-color'', ''has-background-color-color'',
                               ''has-text-color'', ''has-background''])
             else if variant = ''secondary'' then
               (obj_set (obj_set [] ''backgroundColor'' (JString ''secondary''))
                  ''textColor'' (JString ''background''),
                btnClasses0 @ [''has-secondary-background-color'', ''has-background-color-color'',
                               ''has-text-color'', ''has-background''])
             else if variant = ''outline'' then
               (obj_set (obj_set [] ''textColor'' (JString ''primary''))
                  ''style'' (JObject [(''border'',
                     JObject [(''width'', JString ''2px''), (''style'', JString ''solid'')])]),
                btnClasses0 @ [''has-primary-color'', ''has-text-color'', ''is-style-outline''])
             else ([], btnClasses0));
          (btnAttrs, btnClasses) = applyClassName (IRNode.className node) btnAttrs1 btnClasses1;
          styleAttr = wpInlineStyle (obj_get btnAttrs ''style'');
          innerButton =
            block ''button'' btnAttrs
              (''<div class="wp-block-button"><a class="'' @ join '' '' btnClasses
                 @ ''" href="'' @ escapeAttr href @ ''"'' @ styleAttr @ ''>''
                 @ escapeHtml content @ ''</a></div>'');
          buttonsClasses = [''wp-block-buttons'', ''is-layout-flex'']
      in block ''buttons'' []
           (''<div class="'' @ join '' '' buttonsClasses @ ''">\<newline>'' @ innerButton
              @ ''\<newline></div>''))\<close>

definition renderList :: "IRNode \<Rightarrow> string" where
  \<open>renderList node =
     (let attrs = attributes node;
          ordered = (case ordered attrs of None \<Rightarrow> False | Some b \<Rightarrow> b);
          items = (case items attrs of None \<Rightarrow> [] | Some xs \<Rightarrow> xs);
          tag = (if ordered then ''ol'' else ''ul'');
          cssClasses0 = [''wp-block-list''];
          blockAttrs0 = (if ordered then obj_set [] ''ordered'' (JBool True) else []);
          (blockAttrs, cssClasses) = applyClassName (IRNode.className node) blockAttrs0 cssClasses0;
          listItems = join ''\<newline>'' (map (\<lambda>item. ''<li>'' @ escapeHtml item @ ''</li>'') items)
      in block ''list'' blockAttrs
           (''<'' @ tag @ '' class="'' @ join '' '' cssClasses @ ''">\<newline>'' @ listItems
              @ ''\<newline></'' @ tag @ ''>''))\<close>

text \<open>
  \<open>PADDING_MAP[node.attributes.padding || "md"] || "40px"\<close>; the height found is
  put into the block attributes as it is and into the inline style as a string.
\<close>

definition renderSpacer :: "IRNode \<Rightarrow> string" where
  \<open>renderSpacer node =
     (let found = table_get PADDING_MAP (or_str (padding (attributes node)) ''md'');
          height = (if truthy found then found else JString ''40px'')
      in block ''spacer'' [(''height'', height)]
           (''<div style="height:'' @ js_string height
              @ ''" aria-hidden="true" class="wp-block-spacer"></div>''))\<close>

definition renderNavigation :: "IRNode \<Rightarrow> DesignTokens \<Rightarrow> string" where
  \<open>renderNavigation node tokens =
     (let links = (case links (attributes node) of None \<Rightarrow> [] | Some ls \<Rightarrow> ls);
          blockAttrs0 = [(''layout'', JObject [(''type'', JString ''flex''),
                                               (''flexWrap'', JString ''nowrap'')])];
          cssClasses0 = [''wp-block-group''];
          cssClasses1 = (case layoutClassFromType (Some ''flex'') of
                           Some c \<Rightarrow> (if c \<noteq> [] then cssClasses0 @ [c] else cssClasses0)
                         | None \<Rightarrow> cssClasses0);
          (blockAttrs, cssClasses) = applyClassName (IRNode.className node) blockAttrs0 cssClasses1;
          linkBlocks =
            join ''\<newline>\<newline>''
              (map (\<lambda>(text, href).
                      block ''paragraph'' []
                        (''<p><a href="'' @ escapeAttr href @ ''">'' @ escapeHtml text
                           @ ''</a></p>''))
                 links)
      in block ''group'' blockAttrs
           (''<div class="'' @ join '' '' cssClasses @ ''">\<newline>'' @ linkBlocks @ ''\<newline></div>''))\<close>

text \<open>
  \<open>renderGroup\<close> renders its children with \<open>renderNode\<close>; the part of it that does
  not recurse takes the rendered children.
\<close>

definition renderGroup_with :: "IRNode \<Rightarrow> string list \<Rightarrow> string" where
  \<open>renderGroup_with node rendered =
     (let attrs = attributes node;
          irStyle = IRNode.style node;
          display = style_get irStyle ''display'';
          layoutAttr =
            (if display = Some ''grid''
               then [(''type'', JString ''grid''), (''minimumColumnWidth'', JString ''280px'')]
             else if display = Some ''flex''
               then [(''type'', JString ''flex''), (''flexWrap'', JString ''nowrap'')]
             else [(''type'', JString ''constrained'')]);
          blockAttrs0 = [(''layout'', JObject layoutAttr)];
          cssClasses0 = [''wp-block-group''];
          layoutClass = layoutClassFromType
            (case obj_get layoutAttr ''type'' of JString t \<Rightarrow> Some t | _ \<Rightarrow> None);
          cssClasses1 = (case layoutClass of
                           Some c \<Rightarrow> (if c \<noteq> [] then cssClasses0 @ [c] else cssClasses0)
                         | None \<Rightarrow> cssClasses0);
          (blockStyle0, classes) = buildBlockStyle attrs irStyle;
          blockStyle =
            (if truthy_str (style_get irStyle ''gap'')
             then obj_set blockStyle0 ''spacing''
                    (spread_with (obj_get blockStyle0 ''spacing'') ''blockGap''
                       (JString (or_str (style_get irStyle ''gap'') [])))
             else blockStyle0);
          blockAttrs1 = set_style blockAttrs0 blockStyle;
          cssClasses2 = cssClasses1 @ classes;
          (blockAttrs, cssClasses) = applyClassName (IRNode.className node) blockAttrs1 cssClasses2;
          classAttr = '' class="'' @ join '' '' cssClasses @ ''"'';
          styleAttr = wpInlineStyle (obj_get blockAttrs ''style'');
          inner = join ''\<newline>\<newline>'' rendered
      in block ''group'' blockAttrs
           (''<div'' @ classAttr @ styleAttr @ ''>\<newline>'' @ inner @ ''\<newline></div>''))\<close>

fun renderNode :: "IRNode \<Rightarrow> DesignTokens \<Rightarrow> string" where
  "renderNode (IRNode ty co ats ch mi st cn) tokens =
     (let node = IRNode ty co ats ch mi st cn
      in case ty of
           NHeading \<Rightarrow> renderHeading node tokens
         | NParagraph \<Rightarrow> renderParagraph node tokens
         | NImage \<Rightarrow> renderImage node
         | NButton \<Rightarrow> renderButton node tokens
         | NList \<Rightarrow> renderList node
         | NSpacer \<Rightarrow> renderSpacer node
         | NGroup \<Rightarrow>
             renderGroup_with node
               (map (\<lambda>c. renderNode c tokens) (case ch of None \<Rightarrow> [] | Some cs \<Rightarrow> cs))
         | NNavigation \<Rightarrow> renderNavigation node tokens)"

definition renderGroup :: "IRNode \<Rightarrow> DesignTokens \<Rightarrow> string" where
  "renderGroup node tokens =
     renderGroup_with node
       (map (\<lambda>c. renderNode c tokens)
          (case IRNode.children node of None \<Rightarrow> [] | Some cs \<Rightarrow> cs))"

definition renderChildrenForLayout :: "IRSection \<Rightarrow> DesignTokens \<Rightarrow> string" where
  \<open>renderChildrenForLayout sec tokens =
     (let layout = layout sec;
          children = IRSection.children sec
      in if ltype layout = Columns then
           let numCols = (case columns layout of None \<Rightarrow> 2 | Some n \<Rightarrow> if n = 0 then 2 else n);
               cols = chunkArray children numCols;
               gap = (if truthy_str (gap layout) then table_get GAP_MAP (or_str (gap layout) [])
                      else JUndefined);
               colAttrs =
                 (if truthy gap
                  then obj_set [] ''style''
                         (JObject [(''spacing'',
                            JObject [(''blockGap'', JObject [(''top'', gap), (''left'', gap)])])])
                  else []);
               columnBlocks =
                 join ''\<newline>\<newline>''
                   (map (\<lambda>colChildren.
                           let inner = join ''\<newline>\<newline>'' (map (\<lambda>c. renderNode c tokens) colChildren)
                           in block ''column'' []
                                (''<div class="wp-block-column is-layout-flow">\<newline>'' @ inner
                                   @ ''\<newline></div>''))
                      cols);
               colStyleAttr = wpInlineStyle (obj_get colAttrs ''style'');
               colsCssClasses = [''wp-block-columns'', ''is-layout-flex'']
           in block ''columns'' colAttrs
                (''<div class="'' @ join '' '' colsCssClasses @ ''"'' @ colStyleAttr @ ''>\<newline>''
                   @ columnBlocks @ ''\<newline></div>'')
         else if ltype layout = Grid then
           let gridAttrs = [(''layout'', JObject [(''type'', JString ''grid''),
                                                  (''minimumColumnWidth'', JString ''300px'')])];
               inner = join ''\<newline>\<newline>'' (map (\<lambda>c. renderNode c tokens) children);
               gridClasses = [''wp-block-group'', ''is-layout-grid'']
           in block ''group'' gridAttrs
                (''<div class="'' @ join '' '' gridClasses @ ''">\<newline>'' @ inner @ ''\<newline></div>'')
         else join ''\<newline>\<newline>'' (map (\<lambda>c. renderNode c tokens) children))\<close>

definition renderSection :: "IRSection \<Rightarrow> DesignTokens \<Rightarrow> string" where
  \<open>renderSection sec tokens =
     (let innerContent = renderChildrenForLayout sec tokens;
          background = IRSection.background sec;
          layout = layout sec;
          cn = IRSection.className sec;
          layoutType = (if ltype layout = FullWidth then ''default'' else ''constrained'')
      in if map_option bg_type background = Some BgImage then
           let url = bg_value (the background);
               coverAttrs0 = [(''url'', JString url), (''dimRatio'', JNumber 50),
                              (''layout'', JObject [(''type'', JString layoutType)])];
               (coverAttrs, coverClasses) = applyClassName cn coverAttrs0 [''wp-block-cover'']
           in block ''cover'' coverAttrs
                (join ''\<newline>''
                   [''<div class="'' @ join '' '' coverClasses @ ''">'',
                    ''<span aria-hidden="true" class="wp-block-cover__background has-background-dim"></span>'',
                    ''<img class="wp-block-cover__image-background" alt="" src="''
                      @ escapeAttr url @ ''" data-object-fit="cover"/>'',
                    ''<div class="wp-block-cover__inner-container">'',
                    innerContent,
                    ''</div>'',
                    ''</div>''])
         else
           let groupAttrs0 = [(''layout'', JObject [(''type'', JString layoutType)])];
               cssClasses0 = [''wp-block-group''];
               cssClasses1 = (case layoutClassFromType (Some layoutType) of
                                Some c \<Rightarrow> (if c \<noteq> [] then cssClasses0 @ [c] else cssClasses0)
                              | None \<Rightarrow> cssClasses0);
               (groupStyle1, cssClasses2) =
                 (if map_option bg_type background = Some BgColor
                  then (obj_set [] ''color''
                          (JObject [(''background'', JString (bg_value (the background)))]),
                        cssClasses1 @ [''has-background''])
                  else if map_option bg_type background = Some BgGradient
                  then (obj_set [] ''color''
                          (JObject [(''gradient'', JString (bg_value (the background)))]),
                        cssClasses1 @ [''has-background''])
                  else ([], cssClasses1));
               groupStyle =
                 (if truthy_str (gap layout)
                  then (let gapVal = table_get GAP_MAP (or_str (gap layout) [])
                        in if truthy gapVal then
                             obj_set groupStyle1 ''spacing''
                               (JObject [(''padding'',
                                  JObject [(''top'', gapVal), (''bottom'', gapVal)])])
                           else groupStyle1)
                  else groupStyle1);
               groupAttrs1 = set_style groupAttrs0 groupStyle;
               (groupAttrs, cssClasses) = applyClassName cn groupAttrs1 cssClasses2;
               classAttr = '' class="'' @ join '' '' cssClasses @ ''"'';
               styleAttr = wpInlineStyle (obj_get groupAttrs ''style'')
           in block ''group'' groupAttrs
                (''<div'' @ classAttr @ styleAttr @ ''>\<newline>'' @ innerContent @ ''\<newline></div>''))\<close>

definition renderTemplate ::
  "IRSection list \<Rightarrow> DesignTokens \<Rightarrow> bool \<Rightarrow> bool \<Rightarrow> string" where
  "renderTemplate secs tokens hasHeader hasFooter =
     join ''\<newline>\<newline>''
       ((if hasHeader
         then [selfClosingBlock ''template-part''
                 [(''slug'', JString ''header''), (''area'', JString ''header'')]]
         else [])
        @ map (\<lambda>sec. renderSection sec tokens) secs
        @ (if hasFooter
           then [selfClosingBlock ''template-part''
                   [(''slug'', JString ''footer''), (''area'', JString ''footer'')]]
           else []))"

section \<open>services/ir-postprocessor.ts\<close>

subsection \<open>The parsed original markup\<close>

text \<open>
  \<open>cheerio.load\<close> is a library call. Its result is a document tree of elements and
  text nodes; the function that parses the raw markup is a parameter \<open>load\<close> of the
  model. The selections used by the source are by tag name, in document order.
\<close>

datatype dom =
    Element (tagName: string) (attribs: "(string \<times> string) list") (childNodes: "dom list")
  | TextNode string

text \<open>The descendants of a node in document order (\<open>$(el).find(...)\<close> ranges over them).\<close>

fun descendants :: "dom \<Rightarrow> dom list" where
  "descendants (Element t as cs) = concat (map (\<lambda>c. c # descendants c) cs)"
| "descendants (TextNode s) = []"

text \<open>\<open>$(el).text()\<close>: the text nodes below the element, concatenated.\<close>

fun dom_text :: "dom \<Rightarrow> string" where
  "dom_text (Element t as cs) = concat (map dom_text cs)"
| "dom_text (TextNode s) = s"

fun is_element :: "dom \<Rightarrow> bool" where
  "is_element (Element t as cs) = True"
| "is_element (TextNode s) = False"

fun tag_of :: "dom \<Rightarrow> string" where
  "tag_of (Element t as cs) = t"
| "tag_of (TextNode s) = []"

text \<open>\<open>$(el).attr(name)\<close>.\<close>

fun attr :: "dom \<Rightarrow> string \<Rightarrow> string option" where
  "attr (Element t as cs) name = map_of as name"
| "attr (TextNode s) name = None"

text \<open>\<open>$(selector)\<close> on the document and \<open>$(root).find(selector)\<close> below an element.\<close>

definition select_all :: "string list \<Rightarrow> dom list \<Rightarrow> dom list" where
  "select_all tags doc =
     filter (\<lambda>el. is_element el \<and> tag_of el \<in> set tags)
       (concat (map (\<lambda>d. d # descendants d) doc))"

definition find_below :: "string list \<Rightarrow> dom \<Rightarrow> dom list" where
  "find_below tags rootEl =
     filter (\<lambda>el. is_element el \<and> tag_of el \<in> set tags) (descendants rootEl)"

definition leafSelector :: "string list" where
  "leafSelector = [''h1'', ''h2'', ''h3'', ''h4'', ''h5'', ''h6'', ''p'', ''img'', ''button'',
                   ''a'', ''ul'', ''ol'']"

definition containerSelector :: "string list" where
  "containerSelector = [''div'', ''section'', ''article'', ''nav'', ''header'', ''footer'',
                        ''aside'', ''main'']"

subsection \<open>Text helpers\<close>

text \<open>
  White space as \<open>\s\<close> and \<open>trim\<close> see it, among the code units that a character
  can be here: the ASCII ones and the no-break space. The further Unicode spaces lie
  beyond these code units; text that holds one is outside the model.
\<close>

definition is_space :: "char \<Rightarrow> bool" where
  "is_space c =
     (c \<in> set [CHR '' '', CHR 0x09, CHR 0x0A, CHR 0x0B, CHR 0x0C, CHR 0x0D, CHR 0xA0])"

text \<open>\<open>text.replace(/\s+/g, " ")\<close>; the flag tells that the previous character was white space.\<close>

fun replace_ws_runs :: "bool \<Rightarrow> string \<Rightarrow> string" where
  "replace_ws_runs prev [] = []"
| "replace_ws_runs prev (c # cs) =
     (if is_space c then (if prev then replace_ws_runs True cs
                          else CHR '' '' # replace_ws_runs True cs)
      else c # replace_ws_runs False cs)"

definition trim :: "string \<Rightarrow> string" where
  "trim s = rev (dropWhile is_space (rev (dropWhile is_space s)))"

definition normalizeText :: "string \<Rightarrow> string" where
  "normalizeText txt = trim (replace_ws_runs False txt)"

text \<open>\<open>s.split(/\s+/)\<close>: the pieces between runs of white space.\<close>

definition split_ws :: "string \<Rightarrow> string list" where
  "split_ws s = split_char (CHR '' '') (replace_ws_runs False s)"

text \<open>A character range \<open>[lo-hi]\<close> of a regular expression, by character codes.\<close>

definition char_between :: "char \<Rightarrow> char \<Rightarrow> char \<Rightarrow> bool" where
  "char_between lo hi c = ((of_char lo :: nat) \<le> of_char c \<and> (of_char c :: nat) \<le> of_char hi)"

definition to_lower_char :: "char \<Rightarrow> char" where
  "to_lower_char c =
     (if char_between (CHR ''A'') (CHR ''Z'') c then char_of (of_char c + (32::nat)) else c)"

definition toLowerCase :: "string \<Rightarrow> string" where
  "toLowerCase s = map to_lower_char s"

definition startsWith :: "string \<Rightarrow> string \<Rightarrow> bool" where
  "startsWith s p = (take (length p) s = p)"

text \<open>A JavaScript \<open>Set\<close> built by successive \<open>add\<close>: first occurrences, in order.\<close>

definition set_add :: "'a list \<Rightarrow> 'a \<Rightarrow> 'a list" where
  "set_add xs x = (if x \<in> set xs then xs else xs @ [x])"

definition to_set_list :: "'a list \<Rightarrow> 'a list" where
  "to_set_list xs = foldl set_add [] xs"

subsection \<open>Class names\<close>

definition is_ident_start :: "char \<Rightarrow> bool" where
  "is_ident_start c =
     (char_between (CHR ''A'') (CHR ''Z'') c \<or> char_between (CHR ''a'') (CHR ''z'') c
      \<or> c = CHR ''_'')"

definition is_name_char :: "char \<Rightarrow> bool" where
  "is_name_char c =
     (is_ident_start c \<or> char_between (CHR ''0'') (CHR ''9'') c \<or> c = CHR ''-'')"

text \<open>
  The successive matches of \<open>/\.([A-Za-z_][\w-]*)/g\<close>: a dot, a start character, as many
  name characters as follow; the search resumes after the match.
\<close>

function css_matches :: "string \<Rightarrow> string list" where
  "css_matches [] = []"
| "css_matches [c] = []"
| "css_matches (c # d # ds) =
     (if c = CHR ''.'' \<and> is_ident_start d
      then (d # takeWhile is_name_char ds) # css_matches (dropWhile is_name_char ds)
      else css_matches (d # ds))"
  by pat_completeness auto
termination
  by (relation "measure length") (auto simp: length_dropWhile_le less_Suc_eq_le le_SucI)

definition extractCssClasses :: "string \<Rightarrow> string list" where
  "extractCssClasses css = to_set_list (css_matches css)"

definition mergeClassName :: "string option \<Rightarrow> string list \<Rightarrow> string option" where
  "mergeClassName existing additions =
     (if length additions = 0 then existing
      else
        let merged0 = (if truthy_str existing
                       then foldl set_add [] (filter (\<lambda>cls. cls \<noteq> []) (split_ws (or_str existing [])))
                       else []);
            merged = foldl set_add merged0 additions
        in if length merged > 0 then Some (join '' '' merged) else None)"

definition getClassList :: "string option \<Rightarrow> string list \<Rightarrow> string list" where
  "getClassList raw cssClasses =
     (if \<not> truthy_str raw then []
      else filter (\<lambda>c. length c > 0 \<and> c \<in> set cssClasses)
             (map trim (split_ws (or_str raw []))))"

subsection \<open>Fingerprint keys\<close>

definition buildLeafKey :: "string \<Rightarrow> string \<Rightarrow> string option \<Rightarrow> string option" where
  "buildLeafKey tag txt extra =
     (let normText = normalizeText txt
      in if startsWith tag ''h'' then
           (if normText = [] then None else Some (tag @ ''|'' @ normText))
         else if tag = ''p'' then
           (if normText = [] then None else Some (''p|'' @ normText))
         else if tag = ''img'' then
           (if \<not> truthy_str extra then None else Some (''img|'' @ or_str extra []))
         else if tag = ''button'' \<or> tag = ''a'' then
           (if normText = [] then None
            else Some (''btn|'' @ normText @ ''|'' @ or_str extra []))
         else if tag = ''ul'' \<or> tag = ''ol'' then
           (if \<not> truthy_str extra then None
            else Some (''list|'' @ tag @ ''|'' @ or_str extra []))
         else None)"

datatype LeafType = LHeading | LParagraph | LImage | LButton | LList

record LeafElement =
  leaf_id :: nat
  leaf_type :: LeafType
  leaf_key :: string
  leaf_classes :: "string list"

record ContainerElement =
  cont_id :: nat
  cont_classes :: "string list"
  leafKeys :: "string list"
  leafKeySet :: "string list"

text \<open>The normalized texts of the list items below a list element, empty ones dropped.\<close>

definition li_items :: "dom \<Rightarrow> string list" where
  "li_items el =
     filter (\<lambda>t. t \<noteq> []) (map (\<lambda>li. normalizeText (dom_text li)) (find_below [''li''] el))"

definition collectHtmlLeafKeys :: "dom \<Rightarrow> string list" where
  "collectHtmlLeafKeys rootEl =
     to_set_list
       (concat
          (map (\<lambda>el.
                  let tag = toLowerCase (tag_of el)
                  in if tag = [] then []
                     else
                       let key =
                             (if tag = ''img''
                                then buildLeafKey tag [] (Some (or_str (attr el ''src'') []))
                              else if tag = ''ul'' \<or> tag = ''ol''
                                then buildLeafKey tag [] (Some (join ''|'' (li_items el)))
                              else buildLeafKey tag (dom_text el)
                                     (Some (if tag = ''a'' then or_str (attr el ''href'') []
                                            else [])))
                       in (case key of None \<Rightarrow> [] | Some k \<Rightarrow> [k]))
             (find_below leafSelector rootEl)))"

text \<open>
  The key of an IR content node. The source computes it with the same case analysis in
  \<open>collectIrLeafKeys\<close> and in \<open>applyLeafClasses\<close>; the leaf type is the one that
  \<open>applyLeafClasses\<close> passes to \<open>findLeafMatch\<close>. Spacer, group and navigation nodes
  have neither.
\<close>

definition heading_level :: "IRNode \<Rightarrow> nat" where
  "heading_level n = (case level (attributes n) of None \<Rightarrow> 2 | Some l \<Rightarrow> if l = 0 then 2 else l)"

definition ir_leaf_key :: "IRNode \<Rightarrow> string option" where
  "ir_leaf_key n =
     (case ntype n of
        NHeading \<Rightarrow>
          buildLeafKey (''h'' @ nat_to_string (heading_level n)) (or_str (content n) []) None
      | NParagraph \<Rightarrow> buildLeafKey ''p'' (or_str (content n) []) None
      | NImage \<Rightarrow> buildLeafKey ''img'' [] (Some (or_str (src (attributes n)) []))
      | NButton \<Rightarrow>
          buildLeafKey ''button'' (or_str (content n) []) (Some (or_str (href (attributes n)) []))
      | NList \<Rightarrow>
          buildLeafKey (if ordered (attributes n) = Some True then ''ol'' else ''ul'') []
            (Some (join ''|'' (case items (attributes n) of None \<Rightarrow> [] | Some xs \<Rightarrow> xs)))
      | _ \<Rightarrow> None)"

definition ir_leaf_type :: "IRNode \<Rightarrow> LeafType option" where
  "ir_leaf_type n =
     (case ntype n of
        NHeading \<Rightarrow> Some LHeading
      | NParagraph \<Rightarrow> Some LParagraph
      | NImage \<Rightarrow> Some LImage
      | NButton \<Rightarrow> Some LButton
      | NList \<Rightarrow> Some LList
      | _ \<Rightarrow> None)"

text \<open>\<open>walkNode\<close> of \<open>collectIrLeafKeys\<close>: the keys pushed, in order.\<close>

fun ir_keys_node :: "IRNode \<Rightarrow> string list" where
  "ir_keys_node (IRNode ty co ats ch mi st cn) =
     (case ir_leaf_key (IRNode ty co ats ch mi st cn) of None \<Rightarrow> [] | Some k \<Rightarrow> [k])
     @ (case ch of None \<Rightarrow> [] | Some cs \<Rightarrow> concat (map ir_keys_node cs))"

definition collectIrLeafKeys_node :: "IRNode \<Rightarrow> string list" where
  "collectIrLeafKeys_node node =
     to_set_list (case IRNode.children node of None \<Rightarrow> []
                  | Some cs \<Rightarrow> concat (map ir_keys_node cs))"

definition collectIrLeafKeys_section :: "IRSection \<Rightarrow> string list" where
  "collectIrLeafKeys_section sec =
     to_set_list (concat (map ir_keys_node (IRSection.children sec)))"

subsection \<open>The index of the original markup\<close>

text \<open>
  One pass over the leaf elements and one over the container elements, with the shared
  counter \<open>idCounter\<close>; an element that yields no key (or, for a container, no class of
  the stylesheet or no leaf key) is skipped and takes no identifier.
\<close>

definition index_leaf ::
  "string list \<Rightarrow> nat \<times> LeafElement list \<Rightarrow> dom \<Rightarrow> nat \<times> LeafElement list" where
  "index_leaf cssClasses acc el =
     (let (idCounter, leaves) = acc;
          tag = toLowerCase (tag_of el)
      in if tag = [] then acc
         else
           let tk =
                 (if startsWith tag ''h''
                    then (Some LHeading, buildLeafKey tag (dom_text el) None)
                  else if tag = ''p''
                    then (Some LParagraph, buildLeafKey ''p'' (dom_text el) None)
                  else if tag = ''img''
                    then (Some LImage, buildLeafKey ''img'' [] (Some (or_str (attr el ''src'') [])))
                  else if tag = ''button'' \<or> tag = ''a''
                    then (Some LButton,
                          buildLeafKey tag (dom_text el)
                            (Some (if tag = ''a'' then or_str (attr el ''href'') [] else [])))
                  else if tag = ''ul'' \<or> tag = ''ol''
                    then (Some LList, buildLeafKey tag [] (Some (join ''|'' (li_items el))))
                  else (None, None))
           in (case tk of
                 (Some ty, Some key) \<Rightarrow>
                   (idCounter + 1,
                    leaves @ [\<lparr> leaf_id = idCounter, leaf_type = ty, leaf_key = key,
                                leaf_classes = getClassList (attr el ''class'') cssClasses \<rparr>])
               | _ \<Rightarrow> acc))"

definition index_container ::
  "string list \<Rightarrow> nat \<times> ContainerElement list \<Rightarrow> dom \<Rightarrow> nat \<times> ContainerElement list" where
  "index_container cssClasses acc el =
     (let (idCounter, containers) = acc;
          classes = getClassList (attr el ''class'') cssClasses
      in if length classes = 0 then acc
         else
           let keys = collectHtmlLeafKeys el
           in if length keys = 0 then acc
              else (idCounter + 1,
                    containers @ [\<lparr> cont_id = idCounter, cont_classes = classes,
                                    leafKeys = keys, leafKeySet = to_set_list keys \<rparr>]))"

record Index =
  leaves :: "LeafElement list"
  containers :: "ContainerElement list"

definition build_index :: "dom list \<Rightarrow> string list \<Rightarrow> Index" where
  "build_index doc cssClasses =
     (let (n, ls) = foldl (index_leaf cssClasses) (0, []) (select_all leafSelector doc);
          (m, cs) = foldl (index_container cssClasses) (n, []) (select_all containerSelector doc)
      in \<lparr> leaves = ls, containers = cs \<rparr>)"

subsection \<open>Matching\<close>

text \<open>
  The two sets of consumed identifiers. \<open>leafMerges\<close> and \<open>containerMerges\<close> are
  history: the identifier of the matched element is appended each time its classes are
  merged into a node or a section (the places where the source calls \<open>addClassesToNode\<close>
  or \<open>addClassesToSection\<close> and then \<open>add\<close> on the set).
\<close>

record MatchState =
  usedLeafIds :: "nat set"
  usedContainerIds :: "nat set"
  leafMerges :: "nat list"
  containerMerges :: "nat list"

definition findLeafMatch ::
  "Index \<Rightarrow> nat set \<Rightarrow> string \<Rightarrow> LeafType \<Rightarrow> LeafElement option" where
  "findLeafMatch idx used key ty =
     (case find (\<lambda>leaf. leaf_id leaf \<notin> used) (filter (\<lambda>l. leaf_key l = key) (leaves idx)) of
        Some leaf \<Rightarrow> Some leaf
      | None \<Rightarrow> find (\<lambda>leaf. leaf_id leaf \<notin> used) (filter (\<lambda>l. leaf_type l = ty) (leaves idx)))"

text \<open>
  \<open>Math.ceil(leafKeys.length * 0.3)\<close> and the ratio \<open>overlap / container.leafKeys.length\<close>
  are computed in floating point by the source and over the reals here. For the lengths
  a document can have the two agree: the product is at least a tenth away from the next
  integer unless the length is a multiple of ten, where the rounded product does not
  exceed the exact one; and two different quotients of lengths differ by far more than
  the rounding error, so they compare as the exact quotients do.
\<close>

definition minOverlap :: "string list \<Rightarrow> nat" where
  "minOverlap keys =
     (if length keys \<le> 3 then 1 else nat \<lceil>real (length keys) * (3 / 10)\<rceil>)"

definition overlap_count :: "ContainerElement \<Rightarrow> string list \<Rightarrow> nat" where
  "overlap_count c keys = length (filter (\<lambda>key. key \<in> set keys) (leafKeySet c))"

record Best =
  best_container :: ContainerElement
  best_overlap :: nat
  best_ratio :: real
  best_size :: nat

definition consider_container ::
  "nat set \<Rightarrow> string list \<Rightarrow> Best option \<Rightarrow> ContainerElement \<Rightarrow> Best option" where
  "consider_container used keys best c =
     (if cont_id c \<in> used then best
      else
        let overlap = overlap_count c keys
        in if overlap < minOverlap keys then best
           else
             let ratio = real overlap / real (length (leafKeys c));
                 candidate = \<lparr> best_container = c, best_overlap = overlap, best_ratio = ratio,
                               best_size = length (leafKeys c) \<rparr>
             in (case best of
                   None \<Rightarrow> Some candidate
                 | Some b \<Rightarrow>
                     if overlap > best_overlap b
                        \<or> (overlap = best_overlap b \<and> ratio > best_ratio b)
                        \<or> (overlap = best_overlap b \<and> ratio = best_ratio b
                            \<and> length (leafKeys c) < best_size b)
                     then Some candidate else Some b))"

definition findContainerMatch ::
  "Index \<Rightarrow> nat set \<Rightarrow> string list \<Rightarrow> ContainerElement option" where
  "findContainerMatch idx used keys =
     (if length keys = 0 then None
      else map_option best_container
             (foldl (consider_container used keys) None (containers idx)))"

subsection \<open>The walk\<close>

text \<open>
  The source mutates the \<open>className\<close> field of the node or section at hand; the model
  returns the updated node or section together with the updated state.
\<close>

fun set_className :: "IRNode \<Rightarrow> string option \<Rightarrow> IRNode" where
  "set_className (IRNode ty co ats ch mi st cn) cn' = IRNode ty co ats ch mi st cn'"

fun set_children :: "IRNode \<Rightarrow> IRNode list option \<Rightarrow> IRNode" where
  "set_children (IRNode ty co ats ch mi st cn) ch' = IRNode ty co ats ch' mi st cn"

definition addClassesToNode :: "IRNode \<Rightarrow> string list \<Rightarrow> IRNode" where
  "addClassesToNode node classes =
     set_className node (mergeClassName (IRNode.className node) classes)"

definition addClassesToSection :: "IRSection \<Rightarrow> string list \<Rightarrow> IRSection" where
  "addClassesToSection sec classes =
     sec\<lparr> IRSection.className := mergeClassName (IRSection.className sec) classes \<rparr>"

definition applyLeafClasses :: "Index \<Rightarrow> IRNode \<Rightarrow> MatchState \<Rightarrow> IRNode \<times> MatchState" where
  "applyLeafClasses idx node st =
     (case (ir_leaf_type node, ir_leaf_key node) of
        (Some ty, Some key) \<Rightarrow>
          (case findLeafMatch idx (usedLeafIds st) key ty of
             Some m \<Rightarrow>
               if length (leaf_classes m) > 0
               then (addClassesToNode node (leaf_classes m),
                     st\<lparr> usedLeafIds := insert (leaf_id m) (usedLeafIds st),
                         leafMerges := leafMerges st @ [leaf_id m] \<rparr>)
               else (node, st)
           | None \<Rightarrow> (node, st))
      | _ \<Rightarrow> (node, st))"

text \<open>
  \<open>applyContainerClasses\<close> takes the target and the function that merges the classes
  into it; \<open>keys\<close> are the target's \<open>collectIrLeafKeys\<close>.
\<close>

definition applyContainerClasses ::
  "Index \<Rightarrow> string list \<Rightarrow> (string list \<Rightarrow> 'a) \<Rightarrow> 'a \<Rightarrow> MatchState \<Rightarrow> 'a \<times> MatchState" where
  "applyContainerClasses idx keys applyFn target st =
     (if length keys = 0 then (target, st)
      else
        (case findContainerMatch idx (usedContainerIds st) keys of
           Some m \<Rightarrow>
             if length (cont_classes m) > 0
             then (applyFn (cont_classes m),
                   st\<lparr> usedContainerIds := insert (cont_id m) (usedContainerIds st),
                       containerMerges := containerMerges st @ [cont_id m] \<rparr>)
             else (target, st)
         | None \<Rightarrow> (target, st)))"

fun walkNode :: "Index \<Rightarrow> IRNode \<Rightarrow> MatchState \<Rightarrow> IRNode \<times> MatchState"
  and walkNodes :: "Index \<Rightarrow> IRNode list \<Rightarrow> MatchState \<Rightarrow> IRNode list \<times> MatchState"
where
  "walkNode idx (IRNode ty co ats ch mi st cn) s =
     (let node = IRNode ty co ats ch mi st cn;
          (n1, s1) = applyLeafClasses idx node s;
          (n2, s2) =
            (if ty = NGroup
             then applyContainerClasses idx (collectIrLeafKeys_node n1)
                    (\<lambda>classes. addClassesToNode n1 classes) n1 s1
             else (n1, s1))
      in case ch of
           None \<Rightarrow> (n2, s2)
         | Some cs \<Rightarrow> (let (cs', s3) = walkNodes idx cs s2 in (set_children n2 (Some cs'), s3)))"
| "walkNodes idx [] s = ([], s)"
| "walkNodes idx (n # ns) s =
     (let (n', s1) = walkNode idx n s;
          (ns', s2) = walkNodes idx ns s1
      in (n' # ns', s2))"

definition walkSection :: "Index \<Rightarrow> IRSection \<Rightarrow> MatchState \<Rightarrow> IRSection \<times> MatchState" where
  "walkSection idx sec s =
     (let (sec1, s1) =
            applyContainerClasses idx (collectIrLeafKeys_section sec)
              (\<lambda>classes. addClassesToSection sec classes) sec s;
          (cs', s2) = walkNodes idx (IRSection.children sec1) s1
      in (sec1\<lparr> IRSection.children := cs' \<rparr>, s2))"

fun walkSections :: "Index \<Rightarrow> IRSection list \<Rightarrow> MatchState \<Rightarrow> IRSection list \<times> MatchState" where
  "walkSections idx [] s = ([], s)"
| "walkSections idx (sec # secs) s =
     (let (sec', s1) = walkSection idx sec s;
          (secs', s2) = walkSections idx secs s1
      in (sec' # secs', s2))"

definition initial_state :: MatchState where
  "initial_state = \<lparr> usedLeafIds = {}, usedContainerIds = {}, leafMerges = [],
                     containerMerges = [] \<rparr>"

text \<open>
  The part of \<open>postprocessClassNames\<close> after its two early returns: index the parsed
  markup, then walk the header, the sections in order and the footer with one state.
\<close>

definition reconcile :: "dom list \<Rightarrow> string list \<Rightarrow> IRDocument \<Rightarrow> IRDocument \<times> MatchState" where
  "reconcile doc cssClasses ir =
     (let idx = build_index doc cssClasses;
          (h', s1) = (case header ir of
                        None \<Rightarrow> (None, initial_state)
                      | Some h \<Rightarrow> (let (h1, s) = walkSection idx h initial_state in (Some h1, s)));
          (secs', s2) = walkSections idx (sections ir) s1;
          (f', s3) = (case footer ir of
                        None \<Rightarrow> (None, s2)
                      | Some f \<Rightarrow> (let (f1, s) = walkSection idx f s2 in (Some f1, s)))
      in (ir\<lparr> header := h', sections := secs', footer := f' \<rparr>, s3))"

text \<open>
  \<open>postprocessClassNames\<close> works on the document object it is given: it updates the
  sections and nodes of that object in place and returns the object itself
  (\<open>return ir\<close>, on every path). A store maps each document reference to the document
  it currently denotes; the function takes the store and the reference and returns the
  reference it returns together with the store it leaves. The IR comes out of JSON
  parsing, so no section or node object occurs at two places of a document.
\<close>

type_synonym ref = nat
type_synonym store = "ref \<Rightarrow> IRDocument"

definition postprocessClassNames ::
  "(string \<Rightarrow> dom list) \<Rightarrow> store \<Rightarrow> ref \<Rightarrow> string option \<Rightarrow> string option \<Rightarrow> ref \<times> store" where
  "postprocessClassNames load \<sigma> ir rawHtml extractedCSS =
     (if \<not> truthy_str rawHtml \<or> \<not> truthy_str extractedCSS then (ir, \<sigma>)
      else
        let cssClasses = extractCssClasses (or_str extractedCSS [])
        in if length cssClasses = 0 then (ir, \<sigma>)
           else (ir, \<sigma>(ir := fst (reconcile (load (or_str rawHtml [])) cssClasses (\<sigma> ir)))))"

section \<open>Reference notions used by the statements\<close>

text \<open>The substitution that \<open>escapeAttr\<close> amounts to, character by character.\<close>

definition escapeAttr_char :: "char \<Rightarrow> string" where
  \<open>escapeAttr_char c =
     (if c = CHR ''&'' then ''&amp;''
      else if c = CHR ''"'' then ''&quot;''
      else if c = CHR ''<'' then ''&lt;''
      else if c = CHR ''>'' then ''&gt;''
      else [c])\<close>

text \<open>One column of a columns layout: the markup of one chunk of children.\<close>

definition column_block :: "DesignTokens \<Rightarrow> IRNode list \<Rightarrow> string" where
  \<open>column_block tokens colChildren =
     block ''column'' []
       (''<div class="wp-block-column is-layout-flow">\<newline>''
          @ join ''\<newline>\<newline>'' (map (\<lambda>c. renderNode c tokens) colChildren) @ ''\<newline></div>'')\<close>


subsection \<open>Concrete inputs\<close>

definition no_attributes :: NodeAttributes where
  "no_attributes = \<lparr> level = None, src = None, alt = None, width = None, height = None,
     href = None, variant = None, ordered = None, items = None, links = None, fontSize = None,
     textAlign = None, backgroundColor = None, textColor = None, padding = None \<rparr>"

definition plain_tokens :: DesignTokens where
  "plain_tokens = \<lparr> colors = \<lparr> primary = ''#111111'', secondary = ''#222222'',
       background = ''#ffffff'', foreground = ''#000000'', accent = None, muted = None \<rparr>,
     fonts = \<lparr> heading = None, body = None \<rparr>, borderRadius = None \<rparr>"

definition para :: "string \<Rightarrow> IRNode" where
  "para txt = IRNode NParagraph (Some txt) no_attributes None None None None"

definition columns_section :: "real option \<Rightarrow> IRNode list \<Rightarrow> IRSection" where
  "columns_section count nodes =
     \<lparr> sectionIntent = ''features'',
       layout = \<lparr> ltype = Columns, columns = count, gap = None, contentWidth = None,
                  verticalAlign = None \<rparr>,
       children = nodes,
       motionIntent = None, background = None, style = None, className = None \<rparr>"

definition three_column_section :: IRSection where
  "three_column_section = columns_section (Some 2) [para ''a'', para ''b'', para ''c'']"

text \<open>A string free of angle brackets cannot open or close a tag or a block comment.\<close>

definition angle_free :: "string \<Rightarrow> bool" where
  \<open>angle_free s = (CHR ''<'' \<notin> set s \<and> CHR ''>'' \<notin> set s)\<close>

text \<open>The attribute part of a block's opening comment, as \<open>block\<close> computes it.\<close>

definition block_json :: "jobject \<Rightarrow> string" where
  "block_json attrs =
     (if length (cleanObj attrs) > 0 then '' '' @ stringify (JObject (cleanObj attrs)) else [])"

definition buy_button :: "string \<Rightarrow> string option \<Rightarrow> IRNode" where
  "buy_button var cn =
     IRNode NButton (Some ''Buy'') (no_attributes\<lparr>href := Some ''/buy'', variant := Some var\<rparr>)
       None None None cn"

text \<open>A document, section or node with every \<open>className\<close> field removed.\<close>

fun erase_node :: "IRNode \<Rightarrow> IRNode" where
  "erase_node (IRNode ty co ats ch mi st cn) =
     IRNode ty co ats (map_option (map erase_node) ch) mi st None"

definition erase_section :: "IRSection \<Rightarrow> IRSection" where
  "erase_section sec =
     sec\<lparr> IRSection.children := map erase_node (IRSection.children sec),
          IRSection.className := None \<rparr>"

definition erase_doc :: "IRDocument \<Rightarrow> IRDocument" where
  "erase_doc ir =
     ir\<lparr> header := map_option erase_section (header ir),
         sections := map erase_section (sections ir),
         footer := map_option erase_section (footer ir) \<rparr>"

text \<open>
  The overlap of a container candidate with a key list is the number of keys they have
  in common. A candidate is eligible when it is unused and its overlap is at least the
  threshold: 1 for up to three different keys, otherwise three tenths of the number of
  different keys, rounded up. \<open>better keys c b\<close> orders candidates by overlap, then by the ratio of the
  overlap to their own number of leaf keys, then by fewer leaf keys.
\<close>

definition key_overlap :: "string list \<Rightarrow> ContainerElement \<Rightarrow> nat" where
  "key_overlap keys c = card (set (leafKeys c) \<inter> set keys)"

definition eligible :: "nat set \<Rightarrow> string list \<Rightarrow> ContainerElement \<Rightarrow> bool" where
  "eligible used keys c =
     (cont_id c \<notin> used
      \<and> (if card (set keys) \<le> 3 then 1 else nat \<lceil>0.3 * real (card (set keys))\<rceil>)
            \<le> key_overlap keys c)"

definition overlap_ratio :: "string list \<Rightarrow> ContainerElement \<Rightarrow> real" where
  "overlap_ratio keys c = real (key_overlap keys c) / real (length (leafKeys c))"

definition better :: "string list \<Rightarrow> ContainerElement \<Rightarrow> ContainerElement \<Rightarrow> bool" where
  "better keys c b =
     (key_overlap keys c > key_overlap keys b
      \<or> (key_overlap keys c = key_overlap keys b
          \<and> overlap_ratio keys c > overlap_ratio keys b)
      \<or> (key_overlap keys c = key_overlap keys b
          \<and> overlap_ratio keys c = overlap_ratio keys b
          \<and> length (leafKeys c) < length (leafKeys b)))"

text \<open>The same three notions with the overlap as the loop of the source counts it.\<close>

definition counted_eligible :: "nat set \<Rightarrow> string list \<Rightarrow> ContainerElement \<Rightarrow> bool" where
  "counted_eligible used keys c = (cont_id c \<notin> used \<and> minOverlap keys \<le> overlap_count c keys)"

definition counted_ratio :: "string list \<Rightarrow> ContainerElement \<Rightarrow> real" where
  "counted_ratio keys c = real (overlap_count c keys) / real (length (leafKeys c))"

definition counted_better :: "string list \<Rightarrow> ContainerElement \<Rightarrow> ContainerElement \<Rightarrow> bool" where
  "counted_better keys c b =
     (overlap_count c keys > overlap_count b keys
      \<or> (overlap_count c keys = overlap_count b keys
          \<and> counted_ratio keys c > counted_ratio keys b)
      \<or> (overlap_count c keys = overlap_count b keys
          \<and> counted_ratio keys c = counted_ratio keys b
          \<and> length (leafKeys c) < length (leafKeys b)))"

text \<open>
  A container element as the index builds it: classes and leaf keys are not empty, the
  leaf keys are pairwise different, and the key set holds the same keys.
\<close>

definition well_indexed :: "ContainerElement \<Rightarrow> bool" where
  "well_indexed c =
     (cont_classes c \<noteq> [] \<and> leafKeys c \<noteq> [] \<and> distinct (leafKeys c)
      \<and> leafKeySet c = leafKeys c)"

subsection \<open>Scenario E and a page with two wrappers\<close>

definition page_markup :: string where
  \<open>page_markup = ''<div class="box"><p class="foo">Hi</p></div><div class="box"><p class="foo bar">Yo</p></div>''\<close>

definition page_dom :: "dom list" where
  "page_dom =
     [Element ''html'' []
        [Element ''head'' [] [],
         Element ''body'' []
           [Element ''div'' [(''class'', ''box'')]
              [Element ''p'' [(''class'', ''foo'')] [TextNode ''Hi'']],
            Element ''div'' [(''class'', ''box'')]
              [Element ''p'' [(''class'', ''foo bar'')] [TextNode ''Yo'']]]]]"

definition page_css :: string where
  "page_css = ''.foo{color:red} .box{margin:0}''"

definition page_load :: "string \<Rightarrow> dom list" where
  "page_load html = (if html = page_markup then page_dom else [])"

definition page_section :: IRSection where
  "page_section =
     \<lparr> sectionIntent = ''content'',
       layout = \<lparr> ltype = Constrained, columns = None, gap = None, contentWidth = None,
                  verticalAlign = None \<rparr>,
       children = [para ''Hi'',
                   IRNode NGroup None no_attributes (Some [para ''Yo'', para ''zz''])
                     None None None],
       motionIntent = None, background = None, style = None, className = None \<rparr>"

definition page_ir :: IRDocument where
  "page_ir =
     \<lparr> version = ''1.0'',
       metadata = \<lparr> title = ''Page'', description = None, sourceUrl = None \<rparr>,
       designTokens = plain_tokens, header = None, sections = [page_section],
       footer = None, customCSS = Some page_css \<rparr>"

definition page_store :: store where
  "page_store = (\<lambda>r. page_ir)"

text \<open>
  What the loop of \<open>findContainerMatch\<close> has established after the candidates \<open>seen\<close>:
  the record \<open>best\<close> describes an eligible candidate among them that none of them
  beats, or there is no eligible candidate among them.
\<close>

definition best_inv ::
  "nat set \<Rightarrow> string list \<Rightarrow> ContainerElement list \<Rightarrow> Best option \<Rightarrow> bool" where
  "best_inv used keys seen best =
     (case best of
        None \<Rightarrow> (\<forall>c \<in> set seen. \<not> counted_eligible used keys c)
      | Some b \<Rightarrow>
          best_container b \<in> set seen
          \<and> counted_eligible used keys (best_container b)
          \<and> best_overlap b = overlap_count (best_container b) keys
          \<and> best_ratio b = counted_ratio keys (best_container b)
          \<and> best_size b = length (leafKeys (best_container b))
          \<and> (\<forall>c \<in> set seen. counted_eligible used keys c \<longrightarrow> \<not> counted_better keys c (best_container b)))"


text \<open>The number of places of a string where a given string begins.\<close>

fun begins_with :: "string \<Rightarrow> string \<Rightarrow> bool" where
  "begins_with [] s = True"
| "begins_with (p # ps) [] = False"
| "begins_with (p # ps) (c # cs) = (p = c \<and> begins_with ps cs)"

fun occurrences :: "string \<Rightarrow> string \<Rightarrow> nat" where
  "occurrences pat [] = (if pat = [] then 1 else 0)"
| "occurrences pat (c # cs) =
     (if begins_with pat (c # cs) then Suc (occurrences pat cs) else occurrences pat cs)"

subsection \<open>A page with three nested-content wrappers\<close>

definition wrappers_dom :: "dom list" where
  "wrappers_dom =
     [Element ''html'' []
        [Element ''head'' [] [],
         Element ''body'' []
           [Element ''div'' [(''class'', ''wide'')]
              [Element ''p'' [] [TextNode ''Hi''], Element ''p'' [] [TextNode ''Yo''],
               Element ''p'' [] [TextNode ''Zed'']],
            Element ''div'' [(''class'', ''tight'')]
              [Element ''p'' [] [TextNode ''Hi''], Element ''p'' [] [TextNode ''Yo'']],
            Element ''div'' [(''class'', ''one'')]
              [Element ''p'' [] [TextNode ''Hi'']]]]]"

definition wrappers_classes :: "string list" where
  "wrappers_classes = [''wide'', ''tight'', ''one'']"

definition wide_box :: ContainerElement where
  "wide_box = \<lparr> cont_id = 6, cont_classes = [''wide''],
                 leafKeys = [''p|Hi'', ''p|Yo'', ''p|Zed''],
                 leafKeySet = [''p|Hi'', ''p|Yo'', ''p|Zed''] \<rparr>"

definition tight_box :: ContainerElement where
  "tight_box = \<lparr> cont_id = 7, cont_classes = [''tight''],
                  leafKeys = [''p|Hi'', ''p|Yo''], leafKeySet = [''p|Hi'', ''p|Yo''] \<rparr>"

definition one_box :: ContainerElement where
  "one_box = \<lparr> cont_id = 8, cont_classes = [''one''],
                leafKeys = [''p|Hi''], leafKeySet = [''p|Hi''] \<rparr>"

section \<open>Escaping\<close>

lemma replaceAll_Nil: "replaceAll c r [] = []"
  by (simp add: replaceAll_def)

lemma replaceAll_append: "replaceAll c r (xs @ ys) = replaceAll c r xs @ replaceAll c r ys"
  by (simp add: replaceAll_def)

lemma replaceAll_Cons: "replaceAll c r (x # xs) = (if x = c then r else [x]) @ replaceAll c r xs"
  by (simp add: replaceAll_def)

lemma replaceAll_concat_map:
  "replaceAll c r (concat (map f s)) = concat (map (\<lambda>x. replaceAll c r (f x)) s)"
  by (induction s) (simp_all add: replaceAll_Nil replaceAll_append)

lemma escapeAttr_per_char:
  \<open>replaceAll (CHR ''>'') ''&gt;''
     (replaceAll (CHR ''<'') ''&lt;''
       (replaceAll (CHR ''"'') ''&quot;'' (if c = CHR ''&'' then ''&amp;'' else [c])))
   = escapeAttr_char c\<close>
  by (simp add: replaceAll_Cons replaceAll_Nil escapeAttr_char_def)

lemma escapeAttr_single_pass: "escapeAttr s = concat (map escapeAttr_char s)"
proof -
  have "replaceAll (CHR ''&'') ''&amp;'' s
          = concat (map (\<lambda>c. if c = CHR ''&'' then ''&amp;'' else [c]) s)"
    by (simp add: replaceAll_def)
  then show ?thesis
    unfolding escapeAttr_def
    by (simp only: replaceAll_concat_map escapeAttr_per_char)
qed

lemma escapeAttr_char_set:
  \<open>CHR ''"'' \<notin> set (escapeAttr_char c) \<and> CHR ''<'' \<notin> set (escapeAttr_char c)
   \<and> CHR ''>'' \<notin> set (escapeAttr_char c)\<close>
  by (simp add: escapeAttr_char_def)

lemma takeWhile_until: "c \<notin> set xs \<Longrightarrow> takeWhile (\<lambda>x. x \<noteq> c) (xs @ c # ys) = xs"
  by (induction xs) auto

text \<open>
  Claim C10. The four replacements of \<open>escapeAttr\<close>, run in the order of the source
  (the ampersand first), amount to one pass that rewrites \<open>&\<close>, the double quote,
  \<open><\<close> and \<open>>\<close> and copies every other character. The result holds no double quote
  and no \<open><\<close>; so in \<open>name="\<dots>"\<close> the first double quote after the opening one is
  the closing one, whatever follows: reading up to it gives back the escaped value.
\<close>

theorem escapeAttr_no_quote_no_lt:
  \<open>escapeAttr s = concat (map escapeAttr_char s)
   \<and> CHR ''"'' \<notin> set (escapeAttr s)
   \<and> CHR ''<'' \<notin> set (escapeAttr s)
   \<and> takeWhile (\<lambda>c. c \<noteq> CHR ''"'') (escapeAttr s @ CHR ''"'' # rest) = escapeAttr s\<close>
proof -
  have q: \<open>CHR ''"'' \<notin> set (escapeAttr s)\<close> and l: \<open>CHR ''<'' \<notin> set (escapeAttr s)\<close>
    using escapeAttr_char_set by (auto simp: escapeAttr_single_pass)
  have \<open>takeWhile (\<lambda>c. c \<noteq> CHR ''"'') (escapeAttr s @ CHR ''"'' # rest) = escapeAttr s\<close>
    using q by (rule takeWhile_until)
  with q l show ?thesis by (simp add: escapeAttr_single_pass)
qed

section \<open>Chunking the children of a columns layout\<close>

text \<open>
  \<open>chunkArray\<close> takes the bucket count as a JavaScript number. For a positive integer
  count the loop runs that many times over non-negative slice bounds, and the slices are
  consecutive blocks of the ceiling size.
\<close>

lemma slice_nat: "slice arr (int a) (int b) = take (b - a) (drop a arr)"
proof -
  have neg: "\<not> int a < 0" "\<not> int b < 0" by simp_all
  show ?thesis
    unfolding slice_def Let_def if_not_P[OF neg(1)] if_not_P[OF neg(2)]
    by (cases "a \<le> length arr"; cases "b \<le> length arr")
       (simp_all add: min_def nat_diff_distrib')
qed

lemma slice_chunk:
  assumes "0 \<le> cs"
  shows "slice arr (int i * cs) ((int i + 1) * cs) = take (nat cs) (drop (i * nat cs) arr)"
proof -
  define c where "c = nat cs"
  have cs: "cs = int c" using assms by (simp add: c_def)
  have a: "int i * int c = int (i * c)" by simp
  have b: "(int i + 1) * int c = int (i * c + c)" by (simp add: algebra_simps)
  show ?thesis
    unfolding cs a b slice_nat c_def[symmetric] by simp
qed

lemma concat_chunks_take:
  "concat (map (\<lambda>i. take cs (drop (i * cs) arr)) [0..<n]) = take (n * cs) arr"
proof (induction n)
  case 0
  show ?case by simp
next
  case (Suc n)
  have "take (n * cs) arr @ take cs (drop (n * cs) arr) = take (n * cs + cs) arr"
    by (simp add: take_add)
  with Suc show ?case by (simp add: add.commute)
qed

lemma concat_filter_nonempty: "concat (filter (\<lambda>c. c \<noteq> []) xss) = concat xss"
  by (induction xss) auto

lemma chunkSize_nonneg:
  assumes "0 < b"
  shows "0 \<le> \<lceil>real (length arr) / real_of_int b\<rceil>"
proof -
  have "0 \<le> real (length arr) / real_of_int b" using assms by simp
  then show ?thesis by (simp only: zero_le_ceiling)
qed

lemma chunkSize_covers:
  assumes "0 < b"
  shows "length arr \<le> nat b * nat \<lceil>real (length arr) / real_of_int b\<rceil>"
proof -
  let ?q = "\<lceil>real (length arr) / real_of_int b\<rceil>"
  have bpos: "0 < real_of_int b" using assms by simp
  have q0: "0 \<le> ?q" by (rule chunkSize_nonneg[OF assms])
  have "real (length arr) / real_of_int b \<le> real_of_int ?q" by (rule le_of_int_ceiling)
  then have "real (length arr) \<le> real_of_int ?q * real_of_int b"
    using pos_divide_le_eq[OF bpos] by blast
  then have "real_of_int (int (length arr)) \<le> real_of_int (?q * b)"
    by simp
  then have "int (length arr) \<le> ?q * b"
    by (simp only: of_int_le_iff)
  then have "int (length arr) \<le> int (nat b * nat ?q)"
    using assms q0 by (simp add: mult.commute)
  then show ?thesis by linarith
qed

lemma chunkArray_integer_count:
  assumes "0 < b"
  shows "chunkArray arr (real_of_int b) =
           filter (\<lambda>chunk. chunk \<noteq> [])
             (map (\<lambda>i. take (nat \<lceil>real (length arr) / real_of_int b\<rceil>)
                        (drop (i * nat \<lceil>real (length arr) / real_of_int b\<rceil>) arr))
                [0..<nat b])"
  unfolding chunkArray_def Let_def
  by (simp add: slice_chunk[OF chunkSize_nonneg[OF assms]])

lemma chunkArray_concat:
  assumes "0 < b"
  shows "concat (chunkArray arr (real_of_int b)) = arr"
  using chunkSize_covers[OF assms, of arr]
  unfolding chunkArray_integer_count[OF assms]
  by (simp add: concat_filter_nonempty concat_chunks_take)

lemma chunkArray_length:
  assumes "0 < b"
  shows "length (chunkArray arr (real_of_int b)) \<le> nat b"
  unfolding chunkArray_integer_count[OF assms]
  by (rule order_trans[OF length_filter_le]) simp

lemma chunkArray_chunks:
  assumes "0 < b" and "c \<in> set (chunkArray arr (real_of_int b))"
  shows "c \<noteq> [] \<and> length c \<le> nat \<lceil>real (length arr) / real_of_int b\<rceil>"
  using assms(2) unfolding chunkArray_integer_count[OF assms(1)] by auto

text \<open>
  The partition law on its intended range. In a columns layout whose column count is a
  positive integer \<open>N\<close> (2 when the count is absent or zero) the children are split into
  chunks whose concatenation is the child list; there are at most \<open>N\<close> chunks, none is
  empty, none is longer than \<open>\<lceil>M / N\<rceil>\<close> for \<open>M\<close> children, and the markup is the columns
  block holding one column block per chunk, in order.
\<close>

lemma columns_partition_integer_count:
  assumes "ltype (layout sec) = Columns"
    and "columns (layout sec) = None \<and> N = 2 \<or> columns (layout sec) = Some 0 \<and> N = 2
         \<or> columns (layout sec) = Some (real_of_int N) \<and> 0 < N"
  shows \<open>\<exists>chunks colAttrs colStyleAttr.
           concat chunks = IRSection.children sec
         \<and> int (length chunks) \<le> N
         \<and> (\<forall>c \<in> set chunks. c \<noteq> []
               \<and> int (length c) \<le> \<lceil>real (length (IRSection.children sec)) / real_of_int N\<rceil>)
         \<and> renderChildrenForLayout sec tokens =
             block ''columns'' colAttrs
               (''<div class="wp-block-columns is-layout-flex"'' @ colStyleAttr @ ''>\<newline>''
                  @ join ''\<newline>\<newline>'' (map (column_block tokens) chunks) @ ''\<newline></div>'')\<close>
proof -
  have N: "(case columns (layout sec) of None \<Rightarrow> 2 | Some n \<Rightarrow> if n = 0 then 2 else n)
             = real_of_int N"
    and pos: "0 < N"
    using assms(2) by auto
  let ?chunks = "chunkArray (IRSection.children sec) (real_of_int N)"
  have 1: "concat ?chunks = IRSection.children sec"
    by (rule chunkArray_concat[OF pos])
  have 2: "int (length ?chunks) \<le> N"
    using chunkArray_length[OF pos, of "IRSection.children sec"] pos by linarith
  have 3: "\<forall>c \<in> set ?chunks. c \<noteq> []
               \<and> int (length c) \<le> \<lceil>real (length (IRSection.children sec)) / real_of_int N\<rceil>"
  proof
    fix c assume c: "c \<in> set ?chunks"
    from chunkArray_chunks[OF pos c] chunkSize_nonneg[OF pos, of "IRSection.children sec"]
    show "c \<noteq> []
               \<and> int (length c) \<le> \<lceil>real (length (IRSection.children sec)) / real_of_int N\<rceil>"
      by linarith
  qed
  have 4: \<open>\<exists>colAttrs colStyleAttr. renderChildrenForLayout sec tokens =
             block ''columns'' colAttrs
               (''<div class="wp-block-columns is-layout-flex"'' @ colStyleAttr @ ''>\<newline>''
                  @ join ''\<newline>\<newline>'' (map (column_block tokens) ?chunks) @ ''\<newline></div>'')\<close>
    unfolding renderChildrenForLayout_def Let_def N
    using assms(1) by (simp add: join_def column_block_def[abs_def] Let_def) blast
  from 1 2 3 4 show ?thesis by blast
qed

lemma columns_partition_integer_count_example:
  \<open>ltype (layout three_column_section) = Columns
   \<and> columns (layout three_column_section) = Some 2
   \<and> chunkArray (IRSection.children three_column_section) 2
       = [[para ''a'', para ''b''], [para ''c'']]
   \<and> (\<exists>chunks colAttrs colStyleAttr.
           concat chunks = [para ''a'', para ''b'', para ''c'']
         \<and> int (length chunks) \<le> 2
         \<and> (\<forall>c \<in> set chunks. c \<noteq> [] \<and> int (length c) \<le> 2)
         \<and> renderChildrenForLayout three_column_section plain_tokens =
             block ''columns'' colAttrs
               (''<div class="wp-block-columns is-layout-flex"'' @ colStyleAttr @ ''>\<newline>''
                  @ join ''\<newline>\<newline>'' (map (column_block plain_tokens) chunks) @ ''\<newline></div>''))\<close>
proof -
  have h1: "ltype (layout three_column_section) = Columns"
    by (simp add: three_column_section_def columns_section_def)
  have h2: "columns (layout three_column_section) = None \<and> (2::int) = 2
         \<or> columns (layout three_column_section) = Some 0 \<and> (2::int) = 2
         \<or> columns (layout three_column_section) = Some (real_of_int 2) \<and> 0 < (2::int)"
    by (simp add: three_column_section_def columns_section_def)
  have kids: "IRSection.children three_column_section = [para ''a'', para ''b'', para ''c'']"
    by (simp add: three_column_section_def columns_section_def)
  have c: "\<lceil>real (length [para ''a'', para ''b'', para ''c'']) / real_of_int 2\<rceil> = 2"
    by simp
  have ch: "chunkArray (IRSection.children three_column_section) 2
       = [[para ''a'', para ''b''], [para ''c'']]"
    by code_simp
  have cols: "columns (layout three_column_section) = Some 2"
    by (simp add: three_column_section_def columns_section_def)
  show ?thesis
    using columns_partition_integer_count[OF h1 h2, of plain_tokens] h1 ch cols
    unfolding kids c
    by simp
qed


section \<open>Rendered nodes\<close>

lemmas render_defs = renderHeading_def buildBlockStyle_def mapFontSize_def set_style_def
  applyClassName_def wpInlineStyle_def block_def escapeHtml_def replaceAll_def obj_get_def
  join_def json_quote_def json_escape_char_def nat_to_string.simps int_to_string_def
  digit_char_def style_get_def push_prop_def

text \<open>
  Claim C7 (scenario A). A heading node of level 1 with content \<open>Hello\<close>, no style
  record, no class name and no alignment, font-size, colour or padding token, rendered
  with design tokens that name no heading font, gives exactly the three lines of the
  scenario: the attribute JSON is compact and follows the block name after one space.
  The other attribute fields, the children and motion fields and the rest of the
  design tokens do not matter.
\<close>

theorem scenario_A_heading:
  \<open>renderNode
      (IRNode NHeading (Some ''Hello'')
         (ats\<lparr>level := Some 1, textAlign := None, fontSize := None, textColor := None,
              backgroundColor := None, padding := None\<rparr>)
         ch mi None None)
      (tokens\<lparr>fonts := (fonts tokens)\<lparr>heading := None\<rparr>\<rparr>)
    = ''<!-- wp:heading {"level":1} -->\<newline><h1 class="wp-block-heading">Hello</h1>\<newline><!-- /wp:heading -->''\<close>
  by (simp add: render_defs)

subsection \<open>Spacer\<close>







section \<open>Buttons\<close>

lemma angle_free_append [simp]: "angle_free (xs @ ys) = (angle_free xs \<and> angle_free ys)"
  by (auto simp: angle_free_def)

lemma angle_free_Nil [simp]: "angle_free []"
  by (simp add: angle_free_def)

lemma angle_free_concat: "(\<And>x. x \<in> set xs \<Longrightarrow> angle_free x) \<Longrightarrow> angle_free (concat xs)"
  by (induction xs) auto

lemma angle_free_join:
  "angle_free sep \<Longrightarrow> (\<And>x. x \<in> set xs \<Longrightarrow> angle_free x) \<Longrightarrow> angle_free (join sep xs)"
  by (cases xs) (auto simp: join_def intro!: angle_free_concat)

lemma split_char_subset: "w \<in> set (split_char sep s) \<Longrightarrow> set w \<subseteq> set s"
proof (induction s arbitrary: w)
  case Nil
  then show ?case by simp
next
  case (Cons c cs)
  show ?case
  proof (cases "c = sep")
    case True
    with Cons show ?thesis by auto
  next
    case False
    then show ?thesis
    proof (cases "split_char sep cs")
      case Nil
      with False Cons.prems show ?thesis by simp
    next
      case (Cons w' ws)
      with False Cons.prems Cons.IH[of w'] Cons.IH[of w] show ?thesis
        by (auto simp: Cons)
    qed
  qed
qed

lemma angle_free_split: "angle_free s \<Longrightarrow> w \<in> set (split_char sep s) \<Longrightarrow> angle_free w"
  using split_char_subset[of w sep s] by (auto simp: angle_free_def)

lemma hex_char_angle: "d < 16 \<Longrightarrow> angle_free [hex_char d]"
proof -
  assume "d < 16"
  then have "hex_char d \<in> set ''0123456789abcdef''"
    unfolding hex_char_def by (intro nth_mem) simp
  then show ?thesis by (auto simp: angle_free_def)
qed

lemma json_escape_char_angle: "angle_free [c] \<Longrightarrow> angle_free (json_escape_char c)"
proof -
  assume c: "angle_free [c]"
  have h1: "angle_free [hex_char (of_char c div 16)]" if "(of_char c :: nat) < 0x20"
    using that by (intro hex_char_angle) simp
  have h2: "angle_free [hex_char (of_char c mod 16)]"
    by (intro hex_char_angle) simp
  show ?thesis
    using c h1 h2 by (auto simp: json_escape_char_def angle_free_def)
qed

lemma json_quote_angle: "angle_free s \<Longrightarrow> angle_free (json_quote s)"
proof -
  assume s: "angle_free s"
  have "angle_free (concat (map json_escape_char s))"
  proof (rule angle_free_concat)
    fix x assume "x \<in> set (map json_escape_char s)"
    then obtain c where "c \<in> set s" "x = json_escape_char c" by auto
    moreover from \<open>c \<in> set s\<close> s have "angle_free [c]" by (auto simp: angle_free_def)
    ultimately show "angle_free x" by (simp add: json_escape_char_angle)
  qed
  then show ?thesis by (simp add: json_quote_def angle_free_def)
qed

lemma block_eq:
  "block name attrs inner =
     ''<!-- wp:'' @ name @ block_json attrs @ '' -->\<newline>'' @ inner @ ''\<newline><!-- /wp:'' @ name @ '' -->''"
  by (simp add: block_def block_json_def Let_def)

lemma obj_get_obj_set_other: "k \<noteq> k' \<Longrightarrow> obj_get (obj_set a k v) k' = obj_get a k'"
  by (induction a) (auto simp: obj_get_def)

lemma wpInlineStyle_undefined: "wpInlineStyle JUndefined = []"
  by (simp add: wpInlineStyle_def)

lemma wpInlineStyle_border_only:
  "wpInlineStyle (JObject [(''border'',
       JObject [(''width'', JString ''2px''), (''style'', JString ''solid'')])]) = []"
  by (simp add: wpInlineStyle_def push_prop_def obj_get_def)

lemma renderButton_unfold:
  \<open>renderButton node tokens =
     (let base =
            (if or_str (variant (attributes node)) ''primary'' = ''primary'' then
               (obj_set (obj_set [] ''backgroundColor'' (JString ''primary''))
                  ''textColor'' (JString ''background''),
                [''wp-block-button__link'', ''wp-element-button'']
                @ [''has-primary-background-color'', ''has-background-color-color'',
                               ''has-text-color'', ''has-background''])
             else if or_str (variant (attributes node)) ''primary'' = ''secondary'' then
               (obj_set (obj_set [] ''backgroundColor'' (JString ''secondary''))
                  ''textColor'' (JString ''background''),
                [''wp-block-button__link'', ''wp-element-button'']
                @ [''has-secondary-background-color'', ''has-background-color-color'',
                               ''has-text-color'', ''has-background''])
             else if or_str (variant (attributes node)) ''primary'' = ''outline'' then
               (obj_set (obj_set [] ''textColor'' (JString ''primary''))
                  ''style'' (JObject [(''border'',
                     JObject [(''width'', JString ''2px''), (''style'', JString ''solid'')])]),
                [''wp-block-button__link'', ''wp-element-button'']
                @ [''has-primary-color'', ''has-text-color'', ''is-style-outline''])
             else ([], [''wp-block-button__link'', ''wp-element-button'']));
          ac = applyClassName (IRNode.className node) (fst base) (snd base)
      in block ''buttons'' []
           (''<div class="'' @ join '' '' [''wp-block-buttons'', ''is-layout-flex''] @ ''">\<newline>''
            @ block ''button'' (fst ac)
              (''<div class="wp-block-button"><a class="'' @ join '' '' (snd ac)
                 @ ''" href="'' @ escapeAttr (or_str (href (attributes node)) ''#'') @ ''"''
                 @ wpInlineStyle (obj_get (fst ac) ''style'') @ ''>''
                 @ escapeHtml (or_str (content node) []) @ ''</a></div>'')
              @ ''\<newline></div>''))\<close>
  unfolding renderButton_def Let_def case_prod_beta by (rule refl)

lemma angle_free_Cons [simp]:
  \<open>angle_free (c # cs) = (c \<noteq> CHR ''<'' \<and> c \<noteq> CHR ''>'' \<and> angle_free cs)\<close>
  by (auto simp: angle_free_def)

lemma escapeAttr_angle_free: "angle_free (escapeAttr s)"
proof -
  have "angle_free (concat (map escapeAttr_char s))"
    by (rule angle_free_concat) (auto simp: escapeAttr_char_def)
  then show ?thesis by (simp only: escapeAttr_single_pass)
qed

lemma escapeHtml_per_char:
  \<open>replaceAll (CHR ''>'') ''&gt;''
     (replaceAll (CHR ''<'') ''&lt;'' (if c = CHR ''&'' then ''&amp;'' else [c]))
   = (if c = CHR ''&'' then ''&amp;'' else if c = CHR ''<'' then ''&lt;''
      else if c = CHR ''>'' then ''&gt;'' else [c])\<close>
  by (simp add: replaceAll_Cons replaceAll_Nil)

lemma escapeHtml_angle_free: "angle_free (escapeHtml s)"
proof -
  have "replaceAll (CHR ''&'') ''&amp;'' s
          = concat (map (\<lambda>c. if c = CHR ''&'' then ''&amp;'' else [c]) s)"
    by (simp add: replaceAll_def)
  then have "escapeHtml s =
      concat (map (\<lambda>c. if c = CHR ''&'' then ''&amp;'' else if c = CHR ''<'' then ''&lt;''
      else if c = CHR ''>'' then ''&gt;'' else [c]) s)"
    unfolding escapeHtml_def by (simp only: replaceAll_concat_map escapeHtml_per_char)
  moreover have "angle_free (concat (map (\<lambda>c. if c = CHR ''&'' then ''&amp;'' else if c = CHR ''<'' then ''&lt;''
      else if c = CHR ''>'' then ''&gt;'' else [c]) s))"
    by (rule angle_free_concat) auto
  ultimately show ?thesis by simp
qed

lemma renderButton_shape:
  \<open>\<exists>btnAttrs btnClasses.
     renderButton node tokens =
       block ''buttons'' []
         (''<div class="wp-block-buttons is-layout-flex">\<newline>''
          @ block ''button'' btnAttrs
              (''<div class="wp-block-button"><a class="'' @ join '' '' btnClasses
                 @ ''" href="'' @ escapeAttr (or_str (href (attributes node)) ''#'') @ ''">''
                 @ escapeHtml (or_str (content node) []) @ ''</a></div>'')
          @ ''\<newline></div>'')
   \<and> (angle_free (or_str (IRNode.className node) []) \<longrightarrow>
          angle_free (block_json btnAttrs) \<and> angle_free (join '' '' btnClasses))\<close>
proof -
  define v where "v = or_str (variant (attributes node)) ''primary''"
  define base :: "jobject \<times> string list" where "base =
            (if v = ''primary'' then
               (obj_set (obj_set [] ''backgroundColor'' (JString ''primary''))
                  ''textColor'' (JString ''background''),
                [''wp-block-button__link'', ''wp-element-button'']
                @ [''has-primary-background-color'', ''has-background-color-color'',
                               ''has-text-color'', ''has-background''])
             else if v = ''secondary'' then
               (obj_set (obj_set [] ''backgroundColor'' (JString ''secondary''))
                  ''textColor'' (JString ''background''),
                [''wp-block-button__link'', ''wp-element-button'']
                @ [''has-secondary-background-color'', ''has-background-color-color'',
                               ''has-text-color'', ''has-background''])
             else if v = ''outline'' then
               (obj_set (obj_set [] ''textColor'' (JString ''primary''))
                  ''style'' (JObject [(''border'',
                     JObject [(''width'', JString ''2px''), (''style'', JString ''solid'')])]),
                [''wp-block-button__link'', ''wp-element-button'']
                @ [''has-primary-color'', ''has-text-color'', ''is-style-outline''])
             else ([], [''wp-block-button__link'', ''wp-element-button'']))"
  define ac where "ac = applyClassName (IRNode.className node) (fst base) (snd base)"
  have sty1: "wpInlineStyle (obj_get (fst base) ''style'') = []"
    unfolding base_def
    by (simp add: obj_get_def wpInlineStyle_undefined wpInlineStyle_border_only)
  have sty: "wpInlineStyle (obj_get (fst ac) ''style'') = []"
    unfolding ac_def applyClassName_def using sty1
    by (simp add: obj_get_obj_set_other)
  have cls1: "\<forall>w \<in> set (snd base). angle_free w"
    unfolding base_def by simp
  have json1: "angle_free (block_json (fst base))"
    unfolding base_def
    by (simp add: block_json_def join_def json_quote_angle)
  have json2: "angle_free (block_json (obj_set (fst base) ''className'' (JString s)))"
    if "angle_free s" for s
    unfolding base_def using that
    by (simp add: block_json_def join_def json_quote_angle)
  have rb: \<open>renderButton node tokens =
       block ''buttons'' []
         (''<div class="wp-block-buttons is-layout-flex">\<newline>''
          @ block ''button'' (fst ac)
              (''<div class="wp-block-button"><a class="'' @ join '' '' (snd ac)
                 @ ''" href="'' @ escapeAttr (or_str (href (attributes node)) ''#'') @ ''">''
                 @ escapeHtml (or_str (content node) []) @ ''</a></div>'')
          @ ''\<newline></div>'')\<close>
    unfolding renderButton_unfold Let_def
    unfolding v_def[symmetric] base_def[symmetric] ac_def[symmetric] sty
    by (simp add: join_def)
  have af: "angle_free (block_json (fst ac)) \<and> angle_free (join '' '' (snd ac))"
    if a: "angle_free (or_str (IRNode.className node) [])"
  proof (cases "truthy_str (IRNode.className node)")
    case True
    have "\<forall>w \<in> set (snd ac). angle_free w"
      using cls1 True a unfolding ac_def applyClassName_def
      by (auto intro: angle_free_split)
    then have "angle_free (join '' '' (snd ac))"
      by (intro angle_free_join) simp_all
    moreover have "angle_free (block_json (fst ac))"
      using True json2[OF a] by (simp add: ac_def applyClassName_def)
    ultimately show ?thesis by simp
  next
    case False
    have "angle_free (join '' '' (snd ac))"
      using cls1 False unfolding ac_def applyClassName_def
      by (intro angle_free_join) simp_all
    with False json1 show ?thesis by (simp add: ac_def applyClassName_def)
  qed
  from rb af show ?thesis by blast
qed

text \<open>
  The skeleton of a rendered button. Whatever its content, href, variant and class
  name, the markup of a button node is the opening comment of a \<open>buttons\<close> block, the
  flex wrapper, the opening comment of a \<open>button\<close> block with its attribute JSON, one
  anchor element and the closing tags and comments. The href and the text are escaped
  and hold no angle bracket. The class name is copied as it is into the attribute JSON
  and into the class list: only when it holds no angle bracket are the tags and block
  comments of the fragment exactly the ten written out below.
\<close>

lemma renderButton_skeleton:
  \<open>\<exists>json_attrs anchor_class.
     renderNode (IRNode NButton co ats ch mi st cn) tokens =
       ''<!-- wp:buttons -->\<newline><div class="wp-block-buttons is-layout-flex">\<newline><!-- wp:button''
       @ json_attrs
       @ '' -->\<newline><div class="wp-block-button"><a class="'' @ anchor_class
       @ ''" href="'' @ escapeAttr (or_str (href ats) ''#'') @ ''">''
       @ escapeHtml (or_str co [])
       @ ''</a></div>\<newline><!-- /wp:button -->\<newline></div>\<newline><!-- /wp:buttons -->''
   \<and> angle_free (escapeAttr (or_str (href ats) ''#''))
   \<and> angle_free (escapeHtml (or_str co []))
   \<and> (angle_free (or_str cn []) \<longrightarrow> angle_free json_attrs \<and> angle_free anchor_class)\<close>
proof -
  obtain btnAttrs btnClasses where
    rb: \<open>renderButton (IRNode NButton co ats ch mi st cn) tokens =
       block ''buttons'' []
         (''<div class="wp-block-buttons is-layout-flex">\<newline>''
          @ block ''button'' btnAttrs
              (''<div class="wp-block-button"><a class="'' @ join '' '' btnClasses
                 @ ''" href="'' @ escapeAttr (or_str (href ats) ''#'') @ ''">''
                 @ escapeHtml (or_str co []) @ ''</a></div>'')
          @ ''\<newline></div>'')\<close>
    and af: "angle_free (or_str cn []) \<longrightarrow>
          angle_free (block_json btnAttrs) \<and> angle_free (join '' '' btnClasses)"
    using renderButton_shape[of "IRNode NButton co ats ch mi st cn" tokens] by auto
  have e: "block_json [] = []" by (simp add: block_json_def)
  have \<open>renderNode (IRNode NButton co ats ch mi st cn) tokens =
       ''<!-- wp:buttons -->\<newline><div class="wp-block-buttons is-layout-flex">\<newline><!-- wp:button''
       @ block_json btnAttrs
       @ '' -->\<newline><div class="wp-block-button"><a class="'' @ join '' '' btnClasses
       @ ''" href="'' @ escapeAttr (or_str (href ats) ''#'') @ ''">''
       @ escapeHtml (or_str co [])
       @ ''</a></div>\<newline><!-- /wp:button -->\<newline></div>\<newline><!-- /wp:buttons -->''\<close>
    by (simp add: rb block_eq e)
  with af escapeAttr_angle_free escapeHtml_angle_free show ?thesis by blast
qed

lemma renderButton_skeleton_example:
  \<open>angle_free (or_str (Some ''cta'') [])
   \<and> (\<exists>json_attrs anchor_class.
     renderNode (buy_button ''primary'' (Some ''cta'')) plain_tokens =
       ''<!-- wp:buttons -->\<newline><div class="wp-block-buttons is-layout-flex">\<newline><!-- wp:button''
       @ json_attrs
       @ '' -->\<newline><div class="wp-block-button"><a class="'' @ anchor_class
       @ ''" href="/buy">Buy</a></div>\<newline><!-- /wp:button -->\<newline></div>\<newline><!-- /wp:buttons -->''
   \<and> angle_free json_attrs \<and> angle_free anchor_class)\<close>
proof -
  have h: "angle_free (or_str (Some ''cta'') [])" by simp
  have hr: "escapeAttr (or_str (href (no_attributes\<lparr>href := Some ''/buy'', variant := Some ''primary''\<rparr>)) ''#'') = ''/buy''"
    by (simp add: escapeAttr_def replaceAll_def)
  have ct: "escapeHtml (or_str (Some ''Buy'') []) = ''Buy''"
    by (simp add: escapeHtml_def replaceAll_def)
  from renderButton_skeleton[of "Some ''Buy''"
      "no_attributes\<lparr>href := Some ''/buy'', variant := Some ''primary''\<rparr>" None None None
      "Some ''cta''" plain_tokens] h
  show ?thesis
    unfolding buy_button_def hr ct by auto
qed

text \<open>
  Claim C2. The wrapping invariant fails for a button whose class name holds the end of
  a comment. \<open>renderButton\<close> escapes the href and the text but copies the class name
  unescaped into the attribute JSON of the opening comment and into the class attribute
  of the anchor. With the class name
  \<open>--> <!-- /wp:button --> <!-- /wp:buttons --> <!-- wp:button -->\<close> the opening comment of
  the button block ends inside the JSON, the comments that follow close the button and
  the \<open>buttons\<close> wrapper, and a further \<open>button\<close> block is opened after the wrapper
  was closed: the fragment holds the opening of a button block three times, against
  once for the class name \<open>cta\<close>.
\<close>

theorem button_className_breaks_wrapper:
  \<open>renderNode
      (buy_button ''primary''
         (Some ''--> <!-- /wp:button --> <!-- /wp:buttons --> <!-- wp:button -->''))
      plain_tokens
    = ''<!-- wp:buttons -->\<newline><div class="wp-block-buttons is-layout-flex">\<newline>''
      @ ''<!-- wp:button {"backgroundColor":"primary","textColor":"background","className":"-->''
      @ '' <!-- /wp:button -->''
      @ '' <!-- /wp:buttons -->''
      @ '' <!-- wp:button -->''
      @ ''"} -->\<newline><div class="wp-block-button"><a class="wp-block-button__link wp-element-button has-primary-background-color has-background-color-color has-text-color has-background --> <!-- /wp:button --> <!-- /wp:buttons --> <!-- wp:button -->" href="/buy">Buy</a></div>\<newline><!-- /wp:button -->\<newline></div>\<newline><!-- /wp:buttons -->''
   \<and> occurrences ''<!-- wp:button ''
        (renderNode
           (buy_button ''primary''
              (Some ''--> <!-- /wp:button --> <!-- /wp:buttons --> <!-- wp:button -->''))
           plain_tokens) = 3
   \<and> occurrences ''<!-- wp:button ''
        (renderNode (buy_button ''primary'' (Some ''cta'')) plain_tokens) = 1\<close>
  by code_simp

text \<open>
  The sequence of the inline style is fixed by \<open>wpInlineStyle\<close>, not by the order of
  the properties in the object: typography, colours, padding sides, margin sides, gap,
  border radius.
\<close>

lemma wpInlineStyle_sequence:
  \<open>wpInlineStyle
     (JObject
        [(''border'', JObject [(''radius'', JString ''4px'')]),
         (''spacing'',
            JObject [(''blockGap'', JObject [(''left'', JString ''2rem''), (''top'', JString ''1rem'')]),
                     (''margin'', JObject [(''left'', JString ''4px''), (''bottom'', JString ''3px''),
                                           (''right'', JString ''2px''), (''top'', JString ''1px'')]),
                     (''padding'', JObject [(''bottom'', JString ''20px''), (''top'', JString ''10px'')])]),
         (''color'', JObject [(''gradient'', JString ''linear-gradient(red,blue)''),
                              (''background'', JString ''#fff''), (''text'', JString ''#000'')]),
         (''typography'', JObject [(''textTransform'', JString ''uppercase''),
                                   (''fontSize'', JString ''12px'')])])
   = '' style="font-size:12px;text-transform:uppercase;color:#000;background-color:#fff;background:linear-gradient(red,blue);padding-top:10px;padding-bottom:20px;margin-top:1px;margin-right:2px;margin-bottom:3px;margin-left:4px;gap:1rem 2rem;border-radius:4px"''\<close>
  by (simp add: wpInlineStyle_def push_prop_def obj_get_def join_def)

text \<open>
  Claim C1 at the outline button. The style object attached to the outline button holds
  a border width and a border style. \<open>wpInlineStyle\<close> derives the empty string from
  it, so the block JSON of the rendered button carries both border values while the
  anchor carries no style attribute at all.
\<close>

theorem outline_button_border_not_inline:
  \<open>wpInlineStyle (JObject [(''border'',
       JObject [(''width'', JString ''2px''), (''style'', JString ''solid'')])]) = []
   \<and> renderNode (buy_button ''outline'' None) plain_tokens =
       ''<!-- wp:buttons -->\<newline><div class="wp-block-buttons is-layout-flex">\<newline><!-- wp:button {"textColor":"primary","style":{"border":{"width":"2px","style":"solid"}}} -->\<newline><div class="wp-block-button"><a class="wp-block-button__link wp-element-button has-primary-color has-text-color is-style-outline" href="/buy">Buy</a></div>\<newline><!-- /wp:button -->\<newline></div>\<newline><!-- /wp:buttons -->''\<close>
  by (simp add: buy_button_def no_attributes_def renderButton_def render_defs escapeAttr_def)

section \<open>Reconciliation\<close>

subsection \<open>Only class names change\<close>

lemma set_className_erase: "erase_node (set_className n c) = erase_node n"
  by (cases n) simp

lemma set_children_erase:
  "erase_node (set_children n (Some cs)) = set_children (erase_node n) (Some (map erase_node cs))"
  by (cases n) simp

lemma addClassesToNode_erase: "erase_node (addClassesToNode n cls) = erase_node n"
  by (simp add: addClassesToNode_def set_className_erase)

lemma applyLeafClasses_erase: "erase_node (fst (applyLeafClasses idx n s)) = erase_node n"
  by (simp add: applyLeafClasses_def addClassesToNode_erase split: option.splits prod.splits)

lemma applyContainerClasses_node_erase:
  "erase_node (fst (applyContainerClasses idx keys (\<lambda>classes. addClassesToNode n classes) n s))
     = erase_node n"
  by (simp add: applyContainerClasses_def addClassesToNode_erase split: option.splits)

lemma walk_erase:
  "erase_node (fst (walkNode idx n s)) = erase_node n"
  "map erase_node (fst (walkNodes idx ns s)) = map erase_node ns"
proof (induction idx n s and idx ns s rule: walkNode_walkNodes.induct)
  case (1 idx ty co ats ch mi st cn s)
  let ?node = "IRNode ty co ats ch mi st cn"
  obtain n1 s1 where a: "applyLeafClasses idx ?node s = (n1, s1)" by force
  obtain n2 s2 where b: "(if ty = NGroup
             then applyContainerClasses idx (collectIrLeafKeys_node n1)
                    (\<lambda>classes. addClassesToNode n1 classes) n1 s1
             else (n1, s1)) = (n2, s2)" by force
  have e1: "erase_node n1 = erase_node ?node"
    using applyLeafClasses_erase[of idx ?node s] a by simp
  have e2: "erase_node n2 = erase_node n1"
    using b applyContainerClasses_node_erase[of idx "collectIrLeafKeys_node n1" n1 s1]
    by (auto split: if_splits)
  show ?case
  proof (cases ch)
    case None
    then show ?thesis using a b e1 e2 by (simp add: Let_def)
  next
    case (Some cs)
    obtain cs' s3 where c: "walkNodes idx cs s2 = (cs', s3)" by force
    have "map erase_node cs' = map erase_node cs"
      using "1.IH"[OF refl refl a[symmetric] refl b[symmetric] Some] c by simp
    then show ?thesis
      using Some a b c e1 e2 by (simp add: Let_def set_children_erase)
  qed
next
  case (2 idx s)
  show ?case by simp
next
  case (3 idx n ns s)
  obtain n' s1 where a: "walkNode idx n s = (n', s1)" by force
  obtain ns' s2 where b: "walkNodes idx ns s1 = (ns', s2)" by force
  from "3.IH"(1)[of ] a have "erase_node n' = erase_node n" by simp
  moreover from "3.IH"(2)[OF a[symmetric] refl] b have "map erase_node ns' = map erase_node ns" by simp
  ultimately show ?case using a b by simp
qed


lemma applyContainerClasses_section_erase:
  "erase_section (fst (applyContainerClasses idx keys
       (\<lambda>classes. addClassesToSection sec classes) sec s)) = erase_section sec"
  by (simp add: applyContainerClasses_def addClassesToSection_def erase_section_def
      split: option.splits)

lemma applyContainerClasses_section_children:
  "IRSection.children (fst (applyContainerClasses idx keys
       (\<lambda>classes. addClassesToSection sec classes) sec s)) = IRSection.children sec"
  by (simp add: applyContainerClasses_def addClassesToSection_def split: option.splits)

lemma walkSection_erase: "erase_section (fst (walkSection idx sec s)) = erase_section sec"
proof -
  obtain sec1 s1 where a: "applyContainerClasses idx (collectIrLeafKeys_section sec)
              (\<lambda>classes. addClassesToSection sec classes) sec s = (sec1, s1)" by force
  obtain cs' s2 where b: "walkNodes idx (IRSection.children sec1) s1 = (cs', s2)" by force
  have e: "erase_section sec1 = erase_section sec"
    using applyContainerClasses_section_erase[of idx "collectIrLeafKeys_section sec" sec s] a
    by simp
  have m: "map erase_node cs' = map erase_node (IRSection.children sec1)"
    using walk_erase(2)[of idx "IRSection.children sec1" s1] b by simp
  have "erase_section (sec1\<lparr> IRSection.children := cs' \<rparr>) = erase_section sec1"
    using m by (simp add: erase_section_def)
  with e a b show ?thesis by (simp add: walkSection_def)
qed

lemma walkSection_eraseD:
  "walkSection idx sec s = (sec', s') \<Longrightarrow> erase_section sec' = erase_section sec"
  using walkSection_erase[of idx sec s] by simp

lemma walkSections_erase:
  "map erase_section (fst (walkSections idx secs s)) = map erase_section secs"
proof (induction secs arbitrary: s)
  case Nil
  show ?case by simp
next
  case (Cons sec secs)
  obtain sec' s1 where a: "walkSection idx sec s = (sec', s1)" by force
  obtain secs' s2 where b: "walkSections idx secs s1 = (secs', s2)" by force
  from walkSection_erase[of idx sec s] a have "erase_section sec' = erase_section sec" by simp
  moreover from Cons[of s1] b have "map erase_section secs' = map erase_section secs" by simp
  ultimately show ?case using a b by simp
qed

lemma reconcile_erase: "erase_doc (fst (reconcile doc css ir)) = erase_doc ir"
proof -
  define idx where "idx = build_index doc css"
  obtain h' s1 where h: "(case header ir of
                        None \<Rightarrow> (None, initial_state)
                      | Some h \<Rightarrow> (let (h1, s) = walkSection idx h initial_state in (Some h1, s)))
                    = (h', s1)" by force
  obtain secs' s2 where m: "walkSections idx (sections ir) s1 = (secs', s2)" by force
  obtain f' s3 where f: "(case footer ir of
                        None \<Rightarrow> (None, s2)
                      | Some f \<Rightarrow> (let (f1, s) = walkSection idx f s2 in (Some f1, s)))
                    = (f', s3)" by force
  have eh: "map_option erase_section h' = map_option erase_section (header ir)"
    using h by (auto split: option.splits prod.splits dest: walkSection_eraseD)
  have em: "map erase_section secs' = map erase_section (sections ir)"
    using m walkSections_erase[of idx "sections ir" s1] by simp
  have ef: "map_option erase_section f' = map_option erase_section (footer ir)"
    using f by (auto split: option.splits prod.splits dest: walkSection_eraseD)
  have "fst (reconcile doc css ir) = ir\<lparr> header := h', sections := secs', footer := f' \<rparr>"
    using h m f by (simp add: reconcile_def idx_def[symmetric])
  then show ?thesis using eh em ef by (simp add: erase_doc_def)
qed

text \<open>
  Claim C4 as amended. \<open>postprocessClassNames\<close> returns the reference it was given; the
  document that this reference denotes after the call differs from the one it denoted
  before at most in \<open>className\<close> fields of sections and nodes (metadata, design
  tokens, section order, layouts, backgrounds, node kinds, content, attributes, style
  records and the shape of the children lists are the same), and no other document of
  the store is touched.
\<close>

theorem postprocess_in_place_frame:
  "fst (postprocessClassNames load \<sigma> ir rawHtml extractedCSS) = ir
   \<and> erase_doc (snd (postprocessClassNames load \<sigma> ir rawHtml extractedCSS) ir) = erase_doc (\<sigma> ir)
   \<and> (\<forall>r. r \<noteq> ir \<longrightarrow> snd (postprocessClassNames load \<sigma> ir rawHtml extractedCSS) r = \<sigma> r)"
  by (simp add: postprocessClassNames_def Let_def reconcile_erase)

text \<open>
  Claim C8. When the raw markup is absent or empty, or the stylesheet text is absent or
  empty, or the stylesheet text defines no class-selector name, the call returns its
  argument and leaves the store as it was: no class name is added anywhere.
\<close>

theorem postprocess_passthrough:
  assumes "\<not> truthy_str rawHtml \<or> \<not> truthy_str extractedCSS
           \<or> extractCssClasses (or_str extractedCSS []) = []"
  shows "postprocessClassNames load \<sigma> ir rawHtml extractedCSS = (ir, \<sigma>)"
  using assms by (auto simp: postprocessClassNames_def Let_def)

lemma page_reconcile:
  "fst (reconcile page_dom [''foo'', ''box''] page_ir) =
     page_ir\<lparr> sections :=
       [page_section\<lparr> IRSection.children :=
            [set_className (para ''Hi'') (Some ''foo''),
             IRNode NGroup None no_attributes
               (Some [set_className (para ''Yo'') (Some ''foo''), para ''zz''])
               None None (Some ''box'')],
          IRSection.className := Some ''box'' \<rparr>] \<rparr>"
  by code_simp

subsection \<open>The best container candidate\<close>

lemma counted_better_irrefl: "\<not> counted_better keys c c"
  by (simp add: counted_better_def)

lemma counted_better_trans:
  "counted_better keys a b \<Longrightarrow> counted_better keys b c \<Longrightarrow> counted_better keys a c"
  unfolding counted_better_def by linarith

lemma foldl_invariant:
  assumes "P [] init"
    and "\<And>seen acc x. P seen acc \<Longrightarrow> P (seen @ [x]) (f acc x)"
  shows "P xs (foldl f init xs)"
proof (induction xs rule: rev_induct)
  case Nil
  show ?case using assms(1) by simp
next
  case (snoc x xs)
  then show ?case using assms(2) by simp
qed

lemma consider_container_inv:
  assumes "best_inv used keys seen best"
  shows "best_inv used keys (seen @ [c]) (consider_container used keys best c)"
proof (cases "counted_eligible used keys c")
  case False
  then have "consider_container used keys best c = best"
    by (auto simp: consider_container_def counted_eligible_def Let_def)
  with False assms show ?thesis
    by (auto simp: best_inv_def split: option.splits)
next
  case True
  define cand where "cand = \<lparr> best_container = c, best_overlap = overlap_count c keys,
      best_ratio = counted_ratio keys c, best_size = length (leafKeys c) \<rparr>"
  show ?thesis
  proof (cases best)
    case None
    then have "consider_container used keys best c = Some cand"
      using True
      by (simp add: consider_container_def counted_eligible_def Let_def cand_def counted_ratio_def)
    with None True assms show ?thesis
      by (auto simp: best_inv_def cand_def counted_better_irrefl)
  next
    case (Some b)
    let ?bc = "best_container b"
    from assms Some have b: "?bc \<in> set seen" "counted_eligible used keys ?bc"
      "best_overlap b = overlap_count ?bc keys" "best_ratio b = counted_ratio keys ?bc"
      "best_size b = length (leafKeys ?bc)"
      "\<forall>c' \<in> set seen. counted_eligible used keys c' \<longrightarrow> \<not> counted_better keys c' ?bc"
      by (auto simp: best_inv_def)
    have ne: "cont_id c \<notin> used" "\<not> overlap_count c keys < minOverlap keys"
      using True by (auto simp: counted_eligible_def)
    have cond: "(overlap_count c keys > best_overlap b
                        \<or> (overlap_count c keys = best_overlap b
                            \<and> real (overlap_count c keys) / real (length (leafKeys c)) > best_ratio b)
                        \<or> (overlap_count c keys = best_overlap b
                            \<and> real (overlap_count c keys) / real (length (leafKeys c)) = best_ratio b
                            \<and> length (leafKeys c) < best_size b))
                = counted_better keys c ?bc"
      unfolding counted_better_def counted_ratio_def b(3,4,5) by (rule refl)
    have step: "consider_container used keys best c
                  = (if counted_better keys c ?bc then Some cand else Some b)"
      unfolding consider_container_def Let_def Some cand_def counted_ratio_def
      by (simp only: ne if_False if_not_P option.case cond[unfolded counted_ratio_def])
    show ?thesis
    proof (cases "counted_better keys c ?bc")
      case bt: True
      have "\<not> counted_better keys c' c" if "c' \<in> set seen" "counted_eligible used keys c'" for c'
        using b(6) that counted_better_trans[OF _ bt] by blast
      with True step bt show ?thesis
        by (auto simp: best_inv_def cand_def counted_better_irrefl)
    next
      case bf: False
      with step b show ?thesis
        by (auto simp: best_inv_def)
    qed
  qed
qed

lemma findContainerMatch_fold:
  "best_inv used keys (containers idx)
     (foldl (consider_container used keys) None (containers idx))"
  by (rule foldl_invariant[where P = "best_inv used keys"])
     (simp_all add: best_inv_def[of _ _ "[]"] consider_container_inv)

lemma findContainerMatch_Some:
  assumes "findContainerMatch idx used keys = Some b"
  shows "keys \<noteq> [] \<and> b \<in> set (containers idx) \<and> counted_eligible used keys b
         \<and> (\<forall>c \<in> set (containers idx).
               counted_eligible used keys c \<longrightarrow> \<not> counted_better keys c b)"
  using assms findContainerMatch_fold[of used keys idx]
  by (auto simp: findContainerMatch_def best_inv_def split: if_splits option.splits)

lemma findContainerMatch_None:
  assumes "findContainerMatch idx used keys = None"
  shows "keys = [] \<or> (\<forall>c \<in> set (containers idx). \<not> counted_eligible used keys c)"
  using assms findContainerMatch_fold[of used keys idx]
  by (auto simp: findContainerMatch_def best_inv_def split: if_splits option.splits)

lemma foldl_set_add:
  "distinct acc \<Longrightarrow>
     distinct (foldl set_add acc xs) \<and> set (foldl set_add acc xs) = set acc \<union> set xs"
  by (induction xs arbitrary: acc) (auto simp: set_add_def)

lemma to_set_list_distinct: "distinct (to_set_list xs) \<and> set (to_set_list xs) = set xs"
  using foldl_set_add[of "[]" xs] by (simp add: to_set_list_def)

lemma collectIrLeafKeys_distinct:
  "distinct (collectIrLeafKeys_section sec) \<and> distinct (collectIrLeafKeys_node n)"
  by (simp add: collectIrLeafKeys_section_def collectIrLeafKeys_node_def to_set_list_distinct)

text \<open>
  The containers of the index are built from a set of keys: their keys are pairwise
  different, so the key set holds the same keys in the same order, and the loop of
  \<open>findContainerMatch\<close> counts the keys that container and target have in common.
\<close>

lemma foldl_set_add_distinct: "distinct (acc @ xs) \<Longrightarrow> foldl set_add acc xs = acc @ xs"
proof (induction xs arbitrary: acc)
  case Nil
  show ?case by simp
next
  case (Cons x xs)
  from Cons.prems have x: "x \<notin> set acc" and d: "distinct ((acc @ [x]) @ xs)" by auto
  from x have "set_add acc x = acc @ [x]" by (simp add: set_add_def)
  with Cons.IH[OF d] show ?case by simp
qed

lemma to_set_list_id: "distinct xs \<Longrightarrow> to_set_list xs = xs"
  using foldl_set_add_distinct[of "[]" xs] by (simp add: to_set_list_def)

lemma collectHtmlLeafKeys_distinct: "distinct (collectHtmlLeafKeys el)"
  unfolding collectHtmlLeafKeys_def by (simp add: to_set_list_distinct)

lemma index_container_well_indexed:
  assumes "\<forall>c \<in> set (snd acc). well_indexed c"
  shows "\<forall>c \<in> set (snd (index_container css acc el)). well_indexed c"
proof -
  obtain i cs where acc: "acc = (i, cs)" by (cases acc)
  have w: "well_indexed \<lparr> cont_id = i, cont_classes = getClassList (attr el ''class'') css,
                 leafKeys = collectHtmlLeafKeys el,
                 leafKeySet = to_set_list (collectHtmlLeafKeys el) \<rparr>"
    if "getClassList (attr el ''class'') css \<noteq> []" "collectHtmlLeafKeys el \<noteq> []"
    using that
    by (simp add: well_indexed_def collectHtmlLeafKeys_distinct
          to_set_list_id[OF collectHtmlLeafKeys_distinct])
  show ?thesis
    using assms w unfolding acc index_container_def Let_def
    by (auto split: if_splits)
qed

lemma build_index_well_indexed:
  assumes "c \<in> set (containers (build_index doc css))"
  shows "well_indexed c"
proof -
  obtain n ls where l: "foldl (index_leaf css) (0, []) (select_all leafSelector doc) = (n, ls)"
    by (cases "foldl (index_leaf css) (0, []) (select_all leafSelector doc)")
  obtain m cs where
    k: "foldl (index_container css) (n, []) (select_all containerSelector doc) = (m, cs)"
    by (cases "foldl (index_container css) (n, []) (select_all containerSelector doc)")
  have "\<forall>c \<in> set (snd (foldl (index_container css) (n, [])
                            (select_all containerSelector doc))). well_indexed c"
    by (rule foldl_invariant[where P = "\<lambda>seen acc. \<forall>c \<in> set (snd acc). well_indexed c"])
       (simp_all add: index_container_well_indexed)
  then have w: "\<forall>c \<in> set cs. well_indexed c" unfolding k by simp
  have "containers (build_index doc css) = cs"
    by (simp add: build_index_def Let_def l k)
  with assms w show ?thesis by simp
qed

lemma overlap_count_key_overlap:
  assumes "well_indexed c"
  shows "overlap_count c keys = key_overlap keys c"
proof -
  from assms have s: "leafKeySet c = leafKeys c" and d: "distinct (leafKeys c)"
    by (simp_all add: well_indexed_def)
  have 1: "length (filter (\<lambda>key. key \<in> set keys) (leafKeys c))
          = card (set (filter (\<lambda>key. key \<in> set keys) (leafKeys c)))"
    by (rule distinct_card[symmetric, OF distinct_filter[OF d]])
  have 2: "set (filter (\<lambda>key. key \<in> set keys) (leafKeys c)) = set (leafKeys c) \<inter> set keys"
    by auto
  show ?thesis
    unfolding overlap_count_def key_overlap_def s 1 2 by (rule refl)
qed

lemma minOverlap_distinct:
  assumes "distinct keys"
  shows "minOverlap keys
           = (if card (set keys) \<le> 3 then 1 else nat \<lceil>0.3 * real (card (set keys))\<rceil>)"
  unfolding minOverlap_def distinct_card[OF assms]
  by (simp add: mult.commute)

lemma counted_eligible_eligible:
  assumes "distinct keys" and "well_indexed c"
  shows "counted_eligible used keys c = eligible used keys c"
  unfolding counted_eligible_def eligible_def
    minOverlap_distinct[OF assms(1)] overlap_count_key_overlap[OF assms(2)]
  by (rule refl)

lemma counted_better_better:
  assumes "well_indexed c" and "well_indexed b"
  shows "counted_better keys c b = better keys c b"
  unfolding counted_better_def better_def counted_ratio_def overlap_ratio_def
    overlap_count_key_overlap[OF assms(1)] overlap_count_key_overlap[OF assms(2)]
  by (rule refl)

text \<open>
  Claim C6. Let the key list of the target hold \<open>k\<close> pairwise different keys, as the
  lists collected below a section or a group node do. The overlap of a container of the
  index is the number of keys it has in common with the list, and the minimum overlap is
  1 when \<open>k \<le> 3\<close> and \<open>\<lceil>0.3 k\<rceil>\<close> otherwise. \<open>findContainerMatch\<close> returns a candidate only
  if the key list is not empty; the candidate is a container of the index, unused and
  with at least the minimum overlap, and no other such container has a greater overlap,
  or the same overlap and a greater ratio of overlap to its own number of leaf keys, or
  the same overlap and ratio and fewer leaf keys; \<open>applyContainerClasses\<close> then merges
  the classes of that candidate and records it as used. When the key list is empty or no
  container is eligible it returns none, and \<open>applyContainerClasses\<close> leaves target and
  state unchanged.
\<close>

theorem findContainerMatch_best:
  assumes "distinct keys"
  shows "(case findContainerMatch (build_index doc css) (usedContainerIds st) keys of
        None \<Rightarrow>
          (keys = [] \<or> (\<forall>c \<in> set (containers (build_index doc css)).
                           \<not> eligible (usedContainerIds st) keys c))
          \<and> applyContainerClasses (build_index doc css) keys applyFn target st = (target, st)
      | Some b \<Rightarrow>
          keys \<noteq> [] \<and> b \<in> set (containers (build_index doc css))
          \<and> eligible (usedContainerIds st) keys b
          \<and> (\<forall>c \<in> set (containers (build_index doc css)).
                eligible (usedContainerIds st) keys c \<longrightarrow> \<not> better keys c b)
          \<and> applyContainerClasses (build_index doc css) keys applyFn target st
              = (applyFn (cont_classes b),
                 st\<lparr> usedContainerIds := insert (cont_id b) (usedContainerIds st),
                     containerMerges := containerMerges st @ [cont_id b] \<rparr>))
   \<and> (keys = [] \<or> (\<forall>c \<in> set (containers (build_index doc css)).
                      \<not> eligible (usedContainerIds st) keys c)
        \<longrightarrow> findContainerMatch (build_index doc css) (usedContainerIds st) keys = None)
   \<and> distinct (collectIrLeafKeys_section sec) \<and> distinct (collectIrLeafKeys_node n)"
proof -
  let ?idx = "build_index doc css"
  let ?used = "usedContainerIds st"
  have el: "counted_eligible ?used keys c = eligible ?used keys c"
    if "c \<in> set (containers ?idx)" for c
    by (rule counted_eligible_eligible[OF assms build_index_well_indexed[OF that]])
  have bt: "counted_better keys c b = better keys c b"
    if "c \<in> set (containers ?idx)" "b \<in> set (containers ?idx)" for c b
    by (rule counted_better_better[OF build_index_well_indexed[OF that(1)]
          build_index_well_indexed[OF that(2)]])
  have some: "keys \<noteq> [] \<and> b \<in> set (containers ?idx) \<and> eligible ?used keys b
          \<and> (\<forall>c \<in> set (containers ?idx). eligible ?used keys c \<longrightarrow> \<not> better keys c b)
          \<and> applyContainerClasses ?idx keys applyFn target st
              = (applyFn (cont_classes b),
                 st\<lparr> usedContainerIds := insert (cont_id b) ?used,
                     containerMerges := containerMerges st @ [cont_id b] \<rparr>)"
    if m: "findContainerMatch ?idx ?used keys = Some b" for b
  proof -
    from findContainerMatch_Some[OF m]
    have k: "keys \<noteq> []" and mem: "b \<in> set (containers ?idx)"
      and ce: "counted_eligible ?used keys b"
      and mx: "\<forall>c \<in> set (containers ?idx).
                 counted_eligible ?used keys c \<longrightarrow> \<not> counted_better keys c b"
      by blast+
    from build_index_well_indexed[OF mem] have cls: "cont_classes b \<noteq> []"
      by (simp add: well_indexed_def)
    have e: "eligible ?used keys b" using ce el[OF mem] by simp
    have x: "\<forall>c \<in> set (containers ?idx). eligible ?used keys c \<longrightarrow> \<not> better keys c b"
      using mx el bt[OF _ mem] by blast
    have a: "applyContainerClasses ?idx keys applyFn target st
              = (applyFn (cont_classes b),
                 st\<lparr> usedContainerIds := insert (cont_id b) ?used,
                     containerMerges := containerMerges st @ [cont_id b] \<rparr>)"
      using k cls by (simp add: applyContainerClasses_def m)
    from k mem e x a show ?thesis by blast
  qed
  have none: "(keys = [] \<or> (\<forall>c \<in> set (containers ?idx). \<not> eligible ?used keys c))
          \<and> applyContainerClasses ?idx keys applyFn target st = (target, st)"
    if m: "findContainerMatch ?idx ?used keys = None"
  proof -
    from findContainerMatch_None[OF m] el
    have "keys = [] \<or> (\<forall>c \<in> set (containers ?idx). \<not> eligible ?used keys c)"
      by blast
    moreover have "applyContainerClasses ?idx keys applyFn target st = (target, st)"
      by (simp add: applyContainerClasses_def m)
    ultimately show ?thesis by blast
  qed
  have 1: "(case findContainerMatch ?idx ?used keys of
        None \<Rightarrow>
          (keys = [] \<or> (\<forall>c \<in> set (containers ?idx). \<not> eligible ?used keys c))
          \<and> applyContainerClasses ?idx keys applyFn target st = (target, st)
      | Some b \<Rightarrow>
          keys \<noteq> [] \<and> b \<in> set (containers ?idx) \<and> eligible ?used keys b
          \<and> (\<forall>c \<in> set (containers ?idx). eligible ?used keys c \<longrightarrow> \<not> better keys c b)
          \<and> applyContainerClasses ?idx keys applyFn target st
              = (applyFn (cont_classes b),
                 st\<lparr> usedContainerIds := insert (cont_id b) ?used,
                     containerMerges := containerMerges st @ [cont_id b] \<rparr>))"
  proof (cases "findContainerMatch ?idx ?used keys")
    case None
    show ?thesis unfolding None option.case by (rule none[OF None])
  next
    case (Some b)
    show ?thesis unfolding Some option.case by (rule some[OF Some])
  qed
  have 2: "keys = [] \<or> (\<forall>c \<in> set (containers ?idx). \<not> eligible ?used keys c)
        \<longrightarrow> findContainerMatch ?idx ?used keys = None"
  proof (cases "findContainerMatch ?idx ?used keys")
    case None
    then show ?thesis by simp
  next
    case (Some b)
    from some[OF Some] show ?thesis by blast
  qed
  from 1 2 collectIrLeafKeys_distinct[of sec n] show ?thesis by blast
qed

subsection \<open>Consumption at most once\<close>















subsection \<open>The example page\<close>

lemma page_classes: "extractCssClasses page_css = [''foo'', ''box'']"
  by code_simp

lemma page_index:
  "build_index page_dom [''foo'', ''box''] =
     \<lparr> leaves = [\<lparr> leaf_id = 0, leaf_type = LParagraph, leaf_key = ''p|Hi'', leaf_classes = [''foo''] \<rparr>,
                 \<lparr> leaf_id = 1, leaf_type = LParagraph, leaf_key = ''p|Yo'', leaf_classes = [''foo''] \<rparr>],
       containers = [\<lparr> cont_id = 2, cont_classes = [''box''], leafKeys = [''p|Hi''], leafKeySet = [''p|Hi''] \<rparr>,
                     \<lparr> cont_id = 3, cont_classes = [''box''], leafKeys = [''p|Yo''], leafKeySet = [''p|Yo''] \<rparr>] \<rparr>"
  by code_simp

lemma page_keys: "collectIrLeafKeys_section page_section = [''p|Hi'', ''p|Yo'', ''p|zz'']"
  by code_simp




theorem postprocess_passthrough_witness:
  "extractCssClasses (or_str (Some ''p{color:red}'') []) = []
   \<and> postprocessClassNames page_load page_store 0 (Some page_markup) (Some ''p{color:red}'')
       = (0, page_store)
   \<and> \<not> truthy_str None
   \<and> postprocessClassNames page_load page_store 0 None (Some page_css) = (0, page_store)"
proof -
  have e: "extractCssClasses (or_str (Some ''p{color:red}'') []) = []"
    by code_simp
  have h1: "\<not> truthy_str (Some page_markup) \<or> \<not> truthy_str (Some ''p{color:red}'')
           \<or> extractCssClasses (or_str (Some ''p{color:red}'') []) = []"
    using e by blast
  have h2: "\<not> truthy_str None \<or> \<not> truthy_str (Some page_css)
           \<or> extractCssClasses (or_str (Some page_css) []) = []"
    by simp
  from postprocess_passthrough[OF h1, of page_load page_store 0]
    postprocess_passthrough[OF h2, of page_load page_store 0] e
  show ?thesis by simp
qed

lemma page_postprocess:
  "postprocessClassNames page_load page_store 0 (Some page_markup) (Some page_css) =
     (0, page_store(0 := fst (reconcile page_dom [''foo'', ''box''] page_ir)))"
proof -
  have m: "page_markup \<noteq> []" by (simp add: page_markup_def)
  have c: "page_css \<noteq> []" by (simp add: page_css_def)
  show ?thesis
    using m c
    by (simp add: postprocessClassNames_def page_classes page_load_def Let_def page_store_def)
qed

text \<open>
  Claim C4 as stated fails: on the example page the document returned is the very
  document object passed in (the same reference), and what that object holds has
  changed, its section now carrying the class \<open>box\<close>. No new document was made.
\<close>

theorem postprocess_not_new_counterexample:
  "fst (postprocessClassNames page_load page_store 0 (Some page_markup) (Some page_css)) = 0
   \<and> snd (postprocessClassNames page_load page_store 0 (Some page_markup) (Some page_css)) 0
       \<noteq> page_store 0
   \<and> map IRSection.className
        (sections (snd (postprocessClassNames page_load page_store 0 (Some page_markup)
                          (Some page_css)) 0))
       = [Some ''box'']"
  unfolding page_postprocess page_reconcile
  by (simp add: page_store_def page_ir_def page_section_def)

theorem postprocess_in_place_frame_witness:
  "(1::nat) \<noteq> 0
   \<and> snd (postprocessClassNames page_load page_store 0 (Some page_markup) (Some page_css)) 1
       = page_store 1
   \<and> erase_doc (snd (postprocessClassNames page_load page_store 0 (Some page_markup)
                        (Some page_css)) 0)
       = erase_doc (page_store 0)
   \<and> fst (postprocessClassNames page_load page_store 0 (Some page_markup) (Some page_css)) = 0"
proof -
  have n: "(1::nat) \<noteq> 0" by simp
  from postprocess_in_place_frame[of page_load page_store 0 "Some page_markup" "Some page_css"] n
  show ?thesis by blast
qed

lemma wrappers_containers:
  "containers (build_index wrappers_dom wrappers_classes) = [wide_box, tight_box, one_box]"
  by code_simp

lemma wrappers_match:
  "findContainerMatch (build_index wrappers_dom wrappers_classes) {} [''p|Hi'', ''p|Yo'']
     = Some tight_box"
  by code_simp

lemma wrappers_match_used:
  "findContainerMatch (build_index wrappers_dom wrappers_classes) {7} [''p|Hi'', ''p|Yo'']
     = Some wide_box"
  by code_simp

lemma wrappers_no_match:
  "findContainerMatch (build_index wrappers_dom wrappers_classes) {}
       [''p|Hi'', ''p|a'', ''p|b'', ''p|c'']
     = None"
  by code_simp

lemma wrappers_overlap:
  "key_overlap [''p|Hi'', ''p|Yo''] wide_box = 2"
  "key_overlap [''p|Hi'', ''p|Yo''] tight_box = 2"
  "key_overlap [''p|Hi'', ''p|Yo''] one_box = 1"
  "key_overlap [''p|Hi'', ''p|a'', ''p|b'', ''p|c''] wide_box = 1"
  by code_simp+

lemma wrappers_eligible:
  "eligible {} [''p|Hi'', ''p|Yo''] wide_box"
  "eligible {} [''p|Hi'', ''p|Yo''] one_box"
  "eligible {7} [''p|Hi'', ''p|Yo''] one_box"
  by code_simp+

theorem findContainerMatch_best_witness:
  "distinct [''p|Hi'', ''p|Yo'']
   \<and> containers (build_index wrappers_dom wrappers_classes) = [wide_box, tight_box, one_box]
   \<and> key_overlap [''p|Hi'', ''p|Yo''] wide_box = 2
   \<and> key_overlap [''p|Hi'', ''p|Yo''] tight_box = 2
   \<and> key_overlap [''p|Hi'', ''p|Yo''] one_box = 1
   \<and> findContainerMatch (build_index wrappers_dom wrappers_classes)
        (usedContainerIds initial_state) [''p|Hi'', ''p|Yo'']
       = Some tight_box
   \<and> eligible (usedContainerIds initial_state) [''p|Hi'', ''p|Yo''] wide_box
   \<and> \<not> better [''p|Hi'', ''p|Yo''] wide_box tight_box
   \<and> eligible (usedContainerIds initial_state) [''p|Hi'', ''p|Yo''] one_box
   \<and> \<not> better [''p|Hi'', ''p|Yo''] one_box tight_box
   \<and> applyContainerClasses (build_index wrappers_dom wrappers_classes) [''p|Hi'', ''p|Yo'']
        (\<lambda>classes. addClassesToSection page_section classes) page_section initial_state
       = (addClassesToSection page_section [''tight''],
          initial_state\<lparr> usedContainerIds := {7}, containerMerges := [7] \<rparr>)
   \<and> findContainerMatch (build_index wrappers_dom wrappers_classes)
        (usedContainerIds (initial_state\<lparr> usedContainerIds := {7} \<rparr>)) [''p|Hi'', ''p|Yo'']
       = Some wide_box
   \<and> \<not> better [''p|Hi'', ''p|Yo''] one_box wide_box
   \<and> distinct [''p|Hi'', ''p|a'', ''p|b'', ''p|c'']
   \<and> key_overlap [''p|Hi'', ''p|a'', ''p|b'', ''p|c''] wide_box = 1
   \<and> findContainerMatch (build_index wrappers_dom wrappers_classes)
        (usedContainerIds initial_state) [''p|Hi'', ''p|a'', ''p|b'', ''p|c'']
       = None
   \<and> \<not> eligible (usedContainerIds initial_state) [''p|Hi'', ''p|a'', ''p|b'', ''p|c''] wide_box
   \<and> applyContainerClasses (build_index wrappers_dom wrappers_classes)
        [''p|Hi'', ''p|a'', ''p|b'', ''p|c'']
        (\<lambda>classes. addClassesToSection page_section classes) page_section initial_state
       = (page_section, initial_state)"
proof -
  let ?idx = "build_index wrappers_dom wrappers_classes"
  let ?two = "[''p|Hi'', ''p|Yo'']"
  let ?four = "[''p|Hi'', ''p|a'', ''p|b'', ''p|c'']"
  let ?fn = "\<lambda>classes. addClassesToSection page_section classes"
  have d2: "distinct ?two" and d4: "distinct ?four" by simp_all
  have u: "usedContainerIds initial_state = {}" by (simp add: initial_state_def)
  have u7: "usedContainerIds (initial_state\<lparr> usedContainerIds := {7} \<rparr>) = {7}" by simp
  have mem: "wide_box \<in> set (containers ?idx)" "one_box \<in> set (containers ?idx)"
    by (simp_all add: wrappers_containers)
  have m2: "findContainerMatch ?idx (usedContainerIds initial_state) ?two = Some tight_box"
    unfolding u by (rule wrappers_match)
  have m7: "findContainerMatch ?idx (usedContainerIds (initial_state\<lparr> usedContainerIds := {7} \<rparr>))
              ?two = Some wide_box"
    unfolding u7 by (rule wrappers_match_used)
  have m4: "findContainerMatch ?idx (usedContainerIds initial_state) ?four = None"
    unfolding u by (rule wrappers_no_match)
  have e: "eligible (usedContainerIds initial_state) ?two wide_box"
    "eligible (usedContainerIds initial_state) ?two one_box"
    unfolding u by (rule wrappers_eligible)+
  have e7: "eligible (usedContainerIds (initial_state\<lparr> usedContainerIds := {7} \<rparr>)) ?two one_box"
    unfolding u7 by (rule wrappers_eligible)
  have tid: "cont_id tight_box = 7" "cont_classes tight_box = [''tight'']"
    by (simp_all add: tight_box_def)
  have cm: "containerMerges initial_state = []" by (simp add: initial_state_def)
  from findContainerMatch_best[OF d2, of wrappers_dom wrappers_classes initial_state ?fn page_section]
  have a: "(\<forall>c \<in> set (containers ?idx).
              eligible (usedContainerIds initial_state) ?two c \<longrightarrow> \<not> better ?two c tight_box)
         \<and> applyContainerClasses ?idx ?two ?fn page_section initial_state
              = (?fn (cont_classes tight_box),
                 initial_state\<lparr> usedContainerIds := insert (cont_id tight_box)
                                    (usedContainerIds initial_state),
                     containerMerges := containerMerges initial_state @ [cont_id tight_box] \<rparr>)"
    unfolding m2 by simp
  from a mem e have 1: "\<not> better ?two wide_box tight_box" "\<not> better ?two one_box tight_box"
    by blast+
  from a have 2: "applyContainerClasses ?idx ?two ?fn page_section initial_state
       = (addClassesToSection page_section [''tight''],
          initial_state\<lparr> usedContainerIds := {7}, containerMerges := [7] \<rparr>)"
    by (simp add: tid u cm)
  from findContainerMatch_best[OF d2, of wrappers_dom wrappers_classes
      "initial_state\<lparr> usedContainerIds := {7} \<rparr>" ?fn page_section]
  have "\<forall>c \<in> set (containers ?idx).
          eligible (usedContainerIds (initial_state\<lparr> usedContainerIds := {7} \<rparr>)) ?two c
            \<longrightarrow> \<not> better ?two c wide_box"
    unfolding m7 by simp
  with mem e7 have 3: "\<not> better ?two one_box wide_box" by blast
  from findContainerMatch_best[OF d4, of wrappers_dom wrappers_classes initial_state ?fn page_section]
  have b: "(\<forall>c \<in> set (containers ?idx). \<not> eligible (usedContainerIds initial_state) ?four c)
         \<and> applyContainerClasses ?idx ?four ?fn page_section initial_state
              = (page_section, initial_state)"
    unfolding m4 by simp
  from b mem have 4: "\<not> eligible (usedContainerIds initial_state) ?four wide_box" by blast
  from b have 5: "applyContainerClasses ?idx ?four ?fn page_section initial_state
              = (page_section, initial_state)" by blast
  from d2 d4 wrappers_containers wrappers_overlap m2 e 1 2 m7 3 m4 4 5 show ?thesis
    by blast
qed


end
